theory Spec2Isabelle
  imports Complex_Main "HOL-Library.Log_Nat"
begin

section \<open>JSON values\<close>

text \<open>
  The serializer reads and writes its documents through a JSON library (header
  \<^verbatim>\<open>json.hpp\<close>, outside the two source files). A JSON value is a tree; an object is an
  association list of its members in iteration order with one entry per key. The
  payload of a floating point number is carried as a real number.
\<close>

datatype json =
    JNull
  | JBool bool
  | JInt int
  | JFloat real
  | JString string
  | JArray "json list"
  | JObject "(string \<times> json) list"

section \<open>Errors\<close>

text \<open>
  Every \<^verbatim>\<open>throw Exception(...)\<close> of the sources is one constructor, named after
  the error taxonomy where it has a name for it. \<open>JsonError\<close> stands for the exceptions
  of the JSON library (they derive from \<^verbatim>\<open>std::exception\<close>, not from the serializer's
  \<^verbatim>\<open>Exception\<close>), \<open>BoostFilesystemError\<close> for \<^verbatim>\<open>boost::filesystem::filesystem_error\<close>
  where the sources do not catch it, \<open>CheckFailed\<close> for a failed \<^verbatim>\<open>CHECK_EQ\<close>/\<^verbatim>\<open>CHECK_NE\<close>.
  \<open>ErrorWhileParsing\<close>, \<open>NodeIllFormed\<close> wrap the error a \<^verbatim>\<open>catch(Exception&)\<close>
  block rethrows.
\<close>

datatype error =
    DirectoryMissing
  | FilesystemError
  | FieldNotRegistered
  | TypeMismatch
  | ShapeMismatch
  | SerializerNotWritable
  | SerializerNotReadable
  | FieldAlreadyAtSavepoint
  | SavepointNotFound
  | FieldNotAtSavepoint
  | MetadataNotFound
  | JsonParserError
  | VersionNodeMissing
  | VersionMismatch
  | PrefixNodeMissing
  | PrefixMismatch
  | ErrorWhileParsing error
  | CannotOpenFile
  | UpgradeReadOnly
  | UpgradeCannotOpen
  | UpgradeTypeInferenceFailure
  | NoFieldMapNode
  | NodeIllFormed error
  | NodeAlreadyExists
  | ArchiveError
  | JsonError
  | BoostFilesystemError
  | CheckFailed

text \<open>Whether an error is an instance of the serializer's \<^verbatim>\<open>Exception\<close> class, that
  is, whether a \<^verbatim>\<open>catch(Exception&)\<close> block catches it.\<close>

fun is_Exception :: "error \<Rightarrow> bool" where
  "is_Exception JsonError = False"
| "is_Exception BoostFilesystemError = False"
| "is_Exception CheckFailed = False"
| "is_Exception _ = True"

section \<open>Operations of the JSON library used by the sources\<close>

text \<open>\<^verbatim>\<open>j.is_null()\<close>\<close>

fun is_null :: "json \<Rightarrow> bool" where
  "is_null JNull = True"
| "is_null _ = False"

text \<open>\<^verbatim>\<open>j.empty()\<close>: null is empty, a container is empty when it has no element, a
  scalar never is.\<close>

fun json_empty :: "json \<Rightarrow> bool" where
  "json_empty JNull = True"
| "json_empty (JArray xs) = (xs = [])"
| "json_empty (JObject kvs) = (kvs = [])"
| "json_empty _ = False"

text \<open>\<^verbatim>\<open>j.size()\<close>\<close>

fun json_size :: "json \<Rightarrow> nat" where
  "json_size JNull = 0"
| "json_size (JArray xs) = length xs"
| "json_size (JObject kvs) = length kvs"
| "json_size _ = 1"

text \<open>\<^verbatim>\<open>j.count(key)\<close>: 0 on anything that is not an object.\<close>

fun json_count :: "json \<Rightarrow> string \<Rightarrow> nat" where
  "json_count (JObject kvs) k = (if k \<in> fst ` set kvs then 1 else 0)"
| "json_count _ k = 0"

text \<open>\<^verbatim>\<open>j[key]\<close> on a constant reference: the value must be an object that has the
  key.\<close>

fun json_at :: "json \<Rightarrow> string \<Rightarrow> error + json" where
  "json_at (JObject kvs) k = (case map_of kvs k of None \<Rightarrow> Inl JsonError | Some v \<Rightarrow> Inr v)"
| "json_at _ k = Inl JsonError"

text \<open>\<^verbatim>\<open>j[key]\<close> on a mutable reference, read only: a null value and a missing key
  give null, anything else that is not an object raises.\<close>

fun json_at_mut :: "json \<Rightarrow> string \<Rightarrow> error + json" where
  "json_at_mut (JObject kvs) k = (case map_of kvs k of None \<Rightarrow> Inr JNull | Some v \<Rightarrow> Inr v)"
| "json_at_mut JNull k = Inr JNull"
| "json_at_mut _ k = Inl JsonError"

text \<open>\<^verbatim>\<open>j[key] = v\<close> on the members of an object: the value of the key is replaced,
  a new key is added.\<close>

fun obj_assign :: "(string \<times> json) list \<Rightarrow> string \<Rightarrow> json \<Rightarrow> (string \<times> json) list" where
  "obj_assign [] k v = [(k, v)]"
| "obj_assign ((k', v') # kvs) k v =
     (if k' = k then (k, v) # kvs else (k', v') # obj_assign kvs k v)"

text \<open>The loop \<^verbatim>\<open>for(it = j.begin(); it != j.end(); ++it)\<close> whose body calls
  \<^verbatim>\<open>it.key()\<close>: the members of an object; nothing for null and for an empty array;
  \<^verbatim>\<open>it.key()\<close> raises in the first round on anything else.\<close>

fun json_items :: "json \<Rightarrow> error + (string \<times> json) list" where
  "json_items (JObject kvs) = Inr kvs"
| "json_items JNull = Inr []"
| "json_items (JArray []) = Inr []"
| "json_items _ = Inl JsonError"

section \<open>Field meta-information and the field map\<close>

datatype TypeID = Boolean | Int32 | Int64 | Float32 | Float64 | String

text \<open>A value of a meta-information map carries its type tag. The payload of a
  \<^verbatim>\<open>double\<close> is a real number; the payload of a \<^verbatim>\<open>float\<close> is a real number that a
  \<^verbatim>\<open>float\<close> can hold, or an infinity (\<open>MFloat32_inf negative\<close>).\<close>

datatype MetaInfoValue =
    MString string
  | MBool bool
  | MInt32 int
  | MFloat32 real
  | MFloat32_inf bool
  | MFloat64 real

fun tag_of :: "MetaInfoValue \<Rightarrow> TypeID" where
  "tag_of (MString _) = String"
| "tag_of (MBool _) = Boolean"
| "tag_of (MInt32 _) = Int32"
| "tag_of (MFloat32 _) = Float32"
| "tag_of (MFloat32_inf _) = Float32"
| "tag_of (MFloat64 _) = Float64"

type_synonym MetaInfoMap = "(string \<times> MetaInfoValue) list"

record FieldMetaInfo =
  fmi_type :: TypeID
  fmi_dims :: "int list"
  fmi_metaInfo :: MetaInfoMap

text \<open>The field map is a map from field names to their meta-information: a list of
  entries with one entry per name, in the order of iteration.\<close>

type_synonym FieldMap = "(string \<times> FieldMetaInfo) list"

text \<open>
  Modelled from the spec: \<^verbatim>\<open>FieldMap::insert\<close> is declared in \<^verbatim>\<open>FieldMap.h\<close>, which is
  not among the sources. An insertion succeeds when the name is absent, or when the name
  is present with structurally equal meta-information (then nothing changes); any other
  insertion is rejected and returns false, which is what \<^verbatim>\<open>FieldMap::fromJSON\<close> tests.
\<close>

definition FieldMap_insert :: "FieldMap \<Rightarrow> string \<Rightarrow> FieldMetaInfo \<Rightarrow> bool \<times> FieldMap" where
  "FieldMap_insert fm name info =
     (case map_of fm name of
        None \<Rightarrow> (True, fm @ [(name, info)])
      | Some old \<Rightarrow> (old = info, fm))"

text \<open>
  \<^verbatim>\<open>FieldMap::toJSON\<close>. The conversion of one \<^verbatim>\<open>FieldMetaInfo\<close> to JSON
  (\<^verbatim>\<open>FieldMetaInfo::toJSON\<close>, not among the sources) is the parameter \<open>toJ\<close>. The loop
  assigns \<^verbatim>\<open>jsonNode["field_map"][name]\<close> for every entry, starting from a null node.
\<close>

fun toJSON_loop :: "(FieldMetaInfo \<Rightarrow> json) \<Rightarrow> FieldMap \<Rightarrow> (string \<times> json) list \<Rightarrow> (string \<times> json) list" where
  "toJSON_loop toJ [] node = node"
| "toJSON_loop toJ ((name, info) # rest) node = toJSON_loop toJ rest (obj_assign node name (toJ info))"

definition FieldMap_toJSON :: "(FieldMetaInfo \<Rightarrow> json) \<Rightarrow> FieldMap \<Rightarrow> json" where
  "FieldMap_toJSON toJ fm =
     (if fm = [] then JNull
      else JObject [(''field_map'', JObject (toJSON_loop toJ fm []))])"

text \<open>
  \<^verbatim>\<open>FieldMap::fromJSON\<close>. The construction of one \<^verbatim>\<open>FieldMetaInfo\<close> from JSON (not
  among the sources) is the parameter \<open>fromJ\<close>; an \<^verbatim>\<open>Exception\<close> it raises is rethrown
  as "JSON node ill-formed". The map is cleared first, so the result does not depend on
  the map the method is called on.
\<close>

fun fromJSON_loop :: "(json \<Rightarrow> error + FieldMetaInfo) \<Rightarrow> (string \<times> json) list \<Rightarrow> FieldMap \<Rightarrow> error + FieldMap" where
  "fromJSON_loop fromJ [] fm = Inr fm"
| "fromJSON_loop fromJ ((key, val) # rest) fm =
     (case fromJ val of
        Inl e \<Rightarrow> Inl (if is_Exception e then NodeIllFormed e else e)
      | Inr info \<Rightarrow>
          (case FieldMap_insert fm key info of
             (insertSuccess, fm') \<Rightarrow>
               if \<not> insertSuccess then Inl NodeAlreadyExists
               else fromJSON_loop fromJ rest fm'))"

definition FieldMap_fromJSON :: "(json \<Rightarrow> error + FieldMetaInfo) \<Rightarrow> json \<Rightarrow> error + FieldMap" where
  "FieldMap_fromJSON fromJ jsonNode =
     (if is_null jsonNode \<or> json_empty jsonNode then Inr []
      else if json_count jsonNode ''field_map'' = 0 then Inl NoFieldMapNode
      else case json_at jsonNode ''field_map'' of
             Inl e \<Rightarrow> Inl e
           | Inr node \<Rightarrow>
               (case json_items node of
                  Inl e \<Rightarrow> Inl e
                | Inr items \<Rightarrow> fromJSON_loop fromJ items []))"


section \<open>Conversions of JSON values to C++ values\<close>

text \<open>A C++ \<^verbatim>\<open>int\<close> has 32 bits; the JSON library holds integers in 64 bits and
  converts with a \<^verbatim>\<open>static_cast\<close>, which keeps the low 32 bits.\<close>

definition int32_of :: "int \<Rightarrow> int" where
  "int32_of i = (i + 2147483648) mod 4294967296 - 2147483648"

definition int64_of :: "int \<Rightarrow> int" where
  "int64_of i = (i + 9223372036854775808) mod 18446744073709551616 - 9223372036854775808"

text \<open>Conversion of a floating point number to an integer drops the fraction. When
  the result does not fit the integer type the conversion is undefined in C++; the
  conversion instruction of the x86 processors then gives the smallest integer of the
  type, which is what the model returns.\<close>

definition truncate :: "real \<Rightarrow> int" where
  "truncate r = (if 0 \<le> r then \<lfloor>r\<rfloor> else \<lceil>r\<rceil>)"

definition double_to_int32 :: "real \<Rightarrow> int" where
  "double_to_int32 r =
     (let t = truncate r
      in if - 2147483648 \<le> t \<and> t \<le> 2147483647 then t else - 2147483648)"

definition double_to_int64 :: "real \<Rightarrow> int" where
  "double_to_int64 r =
     (let t = truncate r
      in if - 9223372036854775808 \<le> t \<and> t \<le> 9223372036854775807 then t
         else - 9223372036854775808)"

text \<open>\<^verbatim>\<open>int(j)\<close>: defined on numbers, raises on anything else.\<close>

fun json_to_int :: "json \<Rightarrow> error + int" where
  "json_to_int (JInt i) = Inr (int32_of i)"
| "json_to_int (JFloat r) = Inr (double_to_int32 r)"
| "json_to_int _ = Inl JsonError"

text \<open>Conversion to \<^verbatim>\<open>std::streamoff\<close>, a 64-bit integer.\<close>

fun json_to_streamoff :: "json \<Rightarrow> error + int" where
  "json_to_streamoff (JInt i) = Inr (int64_of i)"
| "json_to_streamoff (JFloat r) = Inr (double_to_int64 r)"
| "json_to_streamoff _ = Inl JsonError"

text \<open>
  \<^verbatim>\<open>float(x)\<close> for a \<^verbatim>\<open>double\<close> \<open>x\<close>: the nearest number of the IEEE 754 binary32
  format, a tie going to the neighbour with the even significand. All binary32 numbers
  are multiples of \<open>1 / 2 ^ 149\<close>. With \<open>n\<close> the integer part of \<open>\<bar>x\<bar> * 2 ^ 149\<close>, the
  binary32 numbers around \<open>x\<close> are \<open>1 / 2 ^ 149\<close> apart when \<open>n < 2 ^ 24\<close> (the subnormal
  numbers and the first binade) and \<open>2 ^ (bitlen n - 24) / 2 ^ 149\<close> apart otherwise
  (a significand of 24 bits).
\<close>

definition round_half_even :: "real \<Rightarrow> int" where
  "round_half_even x =
     (let f = \<lfloor>x\<rfloor>; d = x - of_int f
      in if d < 1 / 2 then f else if 1 / 2 < d then f + 1 else if even f then f else f + 1)"

definition nearest_float :: "real \<Rightarrow> real" where
  "nearest_float r =
     (let x = \<bar>r\<bar> * 2 ^ 149;
          n = \<lfloor>x\<rfloor>;
          q = (if n < 2 ^ 24 then 1 else 2 ^ nat (bitlen n - 24))
      in sgn r * of_int (round_half_even (x / q)) * q / 2 ^ 149)"

text \<open>The value a \<^verbatim>\<open>float\<close> holds after the conversion. A \<^verbatim>\<open>double\<close> whose nearest
  binary32 number would be \<open>2 ^ 128\<close> or more is beyond the range of \<^verbatim>\<open>float\<close>: the
  conversion is undefined in C++ and gives an infinity on IEEE 754 hardware.\<close>

definition narrow_float :: "real \<Rightarrow> MetaInfoValue" where
  "narrow_float r =
     (let y = nearest_float r
      in if 2 ^ 128 \<le> \<bar>y\<bar> then MFloat32_inf (r < 0) else MFloat32 y)"

text \<open>\<^verbatim>\<open>std::string s = j\<close>: defined on strings only.\<close>

fun json_to_string :: "json \<Rightarrow> error + string" where
  "json_to_string (JString s) = Inr s"
| "json_to_string _ = Inl JsonError"

text \<open>\<^verbatim>\<open>j[i]\<close> on a constant reference: the value must be an array; an index out of
  range is undefined behaviour in C++ and an error here.\<close>

fun json_index :: "json \<Rightarrow> nat \<Rightarrow> error + json" where
  "json_index (JArray xs) i = (if i < length xs then Inr (xs ! i) else Inl JsonError)"
| "json_index _ i = Inl JsonError"

text \<open>Sequencing of two computations that may raise.\<close>

definition try_bind :: "error + 'a \<Rightarrow> ('a \<Rightarrow> error + 'b) \<Rightarrow> error + 'b" where
  "try_bind r f = (case r of Inl e \<Rightarrow> Inl e | Inr x \<Rightarrow> f x)"

section \<open>The file system\<close>

text \<open>
  A file holds a JSON document, or bytes that are not a complete document (\<open>None\<close>:
  an empty or truncated file), and has a last-write time. The file system knows which
  paths are files and which are directories (with their last-write time), for which
  paths a status query raises \<^verbatim>\<open>filesystem_error\<close>, which files cannot be opened for
  reading and which paths cannot be opened for writing, and the time a write stamps on a
  file.
\<close>

record disk_file =
  content :: "json option"
  last_write_time :: int

record filesystem =
  files :: "string \<Rightarrow> disk_file option"
  directories :: "string \<Rightarrow> int option"
  stat_fails :: "string \<Rightarrow> bool"
  read_denied :: "string \<Rightarrow> bool"
  write_denied :: "string \<Rightarrow> bool"
  now :: int

text \<open>\<^verbatim>\<open>boost::filesystem::exists(p)\<close>\<close>

definition fs_exists :: "filesystem \<Rightarrow> string \<Rightarrow> error + bool" where
  "fs_exists fs p =
     (if stat_fails fs p then Inl BoostFilesystemError
      else Inr (files fs p \<noteq> None \<or> directories fs p \<noteq> None))"

text \<open>\<^verbatim>\<open>boost::filesystem::last_write_time(p)\<close>\<close>

definition fs_last_write_time :: "filesystem \<Rightarrow> string \<Rightarrow> error + int" where
  "fs_last_write_time fs p =
     (if stat_fails fs p then Inl BoostFilesystemError
      else case files fs p of
             Some f \<Rightarrow> Inr (last_write_time f)
           | None \<Rightarrow> (case directories fs p of None \<Rightarrow> Inl BoostFilesystemError | Some t \<Rightarrow> Inr t))"

text \<open>\<^verbatim>\<open>std::ifstream ifs(p); ifs.is_open()\<close>\<close>

definition fs_is_open_in :: "filesystem \<Rightarrow> string \<Rightarrow> bool" where
  "fs_is_open_in fs p = (files fs p \<noteq> None \<and> \<not> read_denied fs p)"

text \<open>\<^verbatim>\<open>ifs >> json\<close>: the document of the file; the parser raises when the stream is
  not open or the bytes are not a document.\<close>

definition fs_parse :: "filesystem \<Rightarrow> string \<Rightarrow> json option" where
  "fs_parse fs p =
     (if \<not> fs_is_open_in fs p then None
      else case files fs p of None \<Rightarrow> None | Some f \<Rightarrow> content f)"

text \<open>\<^verbatim>\<open>std::ofstream fs(p, std::ios::out | std::ios::trunc)\<close>: when the stream opens,
  the file exists and is empty from then on.\<close>

definition open_trunc :: "filesystem \<Rightarrow> string \<Rightarrow> filesystem option" where
  "open_trunc fs p =
     (if write_denied fs p then None
      else Some (fs\<lparr>files := (files fs)(p \<mapsto> \<lparr>content = None, last_write_time = now fs\<rparr>)\<rparr>))"

text \<open>\<^verbatim>\<open>fs << doc.dump(1) << std::endl; fs.close()\<close> on the open stream.\<close>

definition write_close :: "filesystem \<Rightarrow> string \<Rightarrow> json \<Rightarrow> filesystem" where
  "write_close fs p doc =
     fs\<lparr>files := (files fs)(p \<mapsto> \<lparr>content = Some doc, last_write_time = now fs\<rparr>)\<rparr>"

text \<open>\<^verbatim>\<open>directory / name\<close> of \<^verbatim>\<open>boost::filesystem::path\<close> (version 3): nothing is
  appended for an empty name; a separator is put between the two unless the name begins
  with one, the directory is empty or the directory ends with one.\<close>

definition path_join :: "string \<Rightarrow> string \<Rightarrow> string" where
  "path_join d f =
     (if f = [] then d
      else if hd f = CHR ''/'' then d @ f
      else if d \<noteq> [] \<and> last d \<noteq> CHR ''/'' then d @ ''/'' @ f
      else d @ f)"


section \<open>Savepoints and the savepoint vector\<close>

text \<open>
  Modelled from the spec: \<^verbatim>\<open>MetaInfoMap::insert\<close> is not among the sources. It returns
  true if the key was inserted and false, changing nothing, if the key is already
  present.
\<close>

definition MetaInfoMap_insert :: "MetaInfoMap \<Rightarrow> string \<Rightarrow> MetaInfoValue \<Rightarrow> bool \<times> MetaInfoMap" where
  "MetaInfoMap_insert m k v =
     (if k \<in> fst ` set m then (False, m) else (True, m @ [(k, v)]))"

record SavepointImpl =
  sp_name :: string
  sp_metaInfo :: MetaInfoMap

record FieldID =
  fid_name :: string
  fid_id :: nat

text \<open>
  Modelled from the spec: the class \<^verbatim>\<open>SavepointVector\<close> is not among the sources. It
  is an ordered list of savepoints and, per savepoint, a map from field name to the id
  of the field: a list of pairs. Two savepoints are equal when their names are equal and
  their meta-information has the same keys with the same typed values, in any order.
  \<open>find\<close> scans linearly and returns the index or -1; \<open>insert\<close> returns the index of
  an equal savepoint without changing anything, and otherwise appends and returns the new
  index; \<open>addField\<close> rejects a field the savepoint already has with
  FieldAlreadyAtSavepoint; \<open>getFieldID\<close> fails with FieldNotAtSavepoint. The callers
  pass the index of a savepoint of the vector; for any other index the model has no
  fields and changes nothing.
\<close>

type_synonym SavepointVector = "(SavepointImpl \<times> (string \<times> nat) list) list"

definition Savepoint_equal :: "SavepointImpl \<Rightarrow> SavepointImpl \<Rightarrow> bool" where
  "Savepoint_equal a b = (sp_name a = sp_name b \<and> set (sp_metaInfo a) = set (sp_metaInfo b))"

fun find_from :: "SavepointVector \<Rightarrow> SavepointImpl \<Rightarrow> int \<Rightarrow> int" where
  "find_from [] sp i = -1"
| "find_from ((x, fs) # xs) sp i = (if Savepoint_equal x sp then i else find_from xs sp (i + 1))"

definition SavepointVector_find :: "SavepointVector \<Rightarrow> SavepointImpl \<Rightarrow> int" where
  "SavepointVector_find sv sp = find_from sv sp 0"

definition SavepointVector_insert :: "SavepointVector \<Rightarrow> SavepointImpl \<Rightarrow> int \<times> SavepointVector" where
  "SavepointVector_insert sv sp =
     (let idx = SavepointVector_find sv sp
      in if idx \<noteq> -1 then (idx, sv) else (int (length sv), sv @ [(sp, [])]))"

definition fields_at :: "SavepointVector \<Rightarrow> int \<Rightarrow> (string \<times> nat) list" where
  "fields_at sv idx = (if 0 \<le> idx \<and> nat idx < length sv then snd (sv ! nat idx) else [])"

definition SavepointVector_hasField :: "SavepointVector \<Rightarrow> int \<Rightarrow> string \<Rightarrow> bool" where
  "SavepointVector_hasField sv idx name = (name \<in> fst ` set (fields_at sv idx))"

definition SavepointVector_addField :: "SavepointVector \<Rightarrow> int \<Rightarrow> FieldID \<Rightarrow> error + SavepointVector" where
  "SavepointVector_addField sv idx fid =
     (if SavepointVector_hasField sv idx (fid_name fid) then Inl FieldAlreadyAtSavepoint
      else if 0 \<le> idx \<and> nat idx < length sv
      then Inr (sv[nat idx := (fst (sv ! nat idx), fields_at sv idx @ [(fid_name fid, fid_id fid)])])
      else Inr sv)"

definition SavepointVector_getFieldID :: "SavepointVector \<Rightarrow> int \<Rightarrow> string \<Rightarrow> error + FieldID" where
  "SavepointVector_getFieldID sv idx name =
     (case map_of (fields_at sv idx) name of
        None \<Rightarrow> Inl FieldNotAtSavepoint
      | Some i \<Rightarrow> Inr \<lparr>fid_name = name, fid_id = i\<rparr>)"

section \<open>The serializer\<close>

datatype OpenModeKind = Read | Write | Append

text \<open>The storage view is opaque to the serializer except for its element type and
  its dimensions; \<open>view_data\<close> stands for the bytes of the elements it gives access to.\<close>

record StorageView =
  view_type :: TypeID
  view_dims :: "int list"
  view_data :: string

text \<open>The binary archive keeps, per field name, a table of the offset and the checksum
  of each stored payload.\<close>

record FileOffsetType =
  offset :: int
  checksum :: string

type_synonym FieldTable = "(string \<times> FileOffsetType list) list"

text \<open>The members of \<^verbatim>\<open>SerializerImpl\<close>; a member \<^verbatim>\<open>mode_\<close> of the class is the
  field \<open>s_mode\<close> of the record, and so on. \<open>s_archive\<close> is the in-memory state of the
  archive the serializer owns: its field table.\<close>

record SerializerImpl =
  s_mode :: OpenModeKind
  s_directory :: string
  s_prefix :: string
  s_metaDataFile :: string
  s_savepointVector :: SavepointVector
  s_fieldMap :: FieldMap
  s_globalMetaInfo :: MetaInfoMap
  s_archive :: FieldTable

text \<open>
  What the serializer calls and the two source files do not define is a parameter of the
  model: the three version macros and \<^verbatim>\<open>Version::match\<close>, the JSON conversions of the
  meta-information map, the savepoint vector and the field meta-information, and the
  virtual methods of the archive (\<open>archive_write\<close> returns the id of the field, or
  raises, and may change the field table and the disk either way) together with
  \<^verbatim>\<open>ArchiveFactory::create\<close>.
\<close>

record externals =
  version_major :: int
  version_minor :: int
  version_patch :: int
  version_match :: "int \<Rightarrow> bool"
  MetaInfoMap_toJSON :: "MetaInfoMap \<Rightarrow> json"
  MetaInfoMap_fromJSON :: "json \<Rightarrow> error + MetaInfoMap"
  SavepointVector_toJSON :: "SavepointVector \<Rightarrow> json"
  SavepointVector_fromJSON :: "json \<Rightarrow> error + SavepointVector"
  FieldMetaInfo_toJSON :: "FieldMetaInfo \<Rightarrow> json"
  FieldMetaInfo_fromJSON :: "json \<Rightarrow> error + FieldMetaInfo"
  archive_write :: "FieldTable \<Rightarrow> filesystem \<Rightarrow> StorageView \<Rightarrow> string
                      \<Rightarrow> (error + FieldID) \<times> FieldTable \<times> filesystem"
  archive_read :: "FieldTable \<Rightarrow> filesystem \<Rightarrow> StorageView \<Rightarrow> FieldID \<Rightarrow> error + StorageView"
  archive_updateMetaData :: "FieldTable \<Rightarrow> filesystem \<Rightarrow> (error + unit) \<times> filesystem"
  archive_clear :: "FieldTable \<Rightarrow> filesystem \<Rightarrow> FieldTable \<times> filesystem"
  archive_create :: "string \<Rightarrow> OpenModeKind \<Rightarrow> string \<Rightarrow> string \<Rightarrow> filesystem
                       \<Rightarrow> error + FieldTable \<times> filesystem"

subsection \<open>checkStorageView\<close>

definition checkStorageView :: "SerializerImpl \<Rightarrow> string \<Rightarrow> StorageView \<Rightarrow> error + unit" where
  "checkStorageView s name storageView =
     (case map_of (s_fieldMap s) name of
        None \<Rightarrow> Inl FieldNotRegistered
      | Some fieldInfo \<Rightarrow>
          if fmi_type fieldInfo \<noteq> view_type storageView then Inl TypeMismatch
          else if length (view_dims storageView) \<noteq> length (fmi_dims fieldInfo)
                  \<or> view_dims storageView \<noteq> fmi_dims fieldInfo then Inl ShapeMismatch
          else Inr ())"

subsection \<open>toJSON and updateMetaData\<close>

definition toJSON :: "externals \<Rightarrow> SerializerImpl \<Rightarrow> json" where
  "toJSON X s = JObject
     [(''serialbox_version'',
         JInt (100 * version_major X + 10 * version_minor X + version_patch X)),
      (''prefix'', JString (s_prefix s)),
      (''global_meta_info'', MetaInfoMap_toJSON X (s_globalMetaInfo s)),
      (''savepoint_vector'', SavepointVector_toJSON X (s_savepointVector s)),
      (''field_map'', FieldMap_toJSON (FieldMetaInfo_toJSON X) (s_fieldMap s))]"

text \<open>\<^verbatim>\<open>updateMetaData\<close> changes the disk only. It opens the meta-data file itself with
  truncation, writes the document and closes the stream, then calls the archive.\<close>

definition updateMetaData :: "externals \<Rightarrow> SerializerImpl \<Rightarrow> filesystem \<Rightarrow> (error + unit) \<times> filesystem" where
  "updateMetaData X s fs =
     (let jsonNode = toJSON X s
      in case open_trunc fs (s_metaDataFile s) of
           None \<Rightarrow> (Inl CannotOpenFile, fs)
         | Some fs1 \<Rightarrow>
             archive_updateMetaData X (s_archive s) (write_close fs1 (s_metaDataFile s) jsonNode))"

text \<open>The complete document a file holds, if the file exists and holds one.\<close>

definition document_at :: "filesystem \<Rightarrow> string \<Rightarrow> json option" where
  "document_at fs p = (case files fs p of None \<Rightarrow> None | Some f \<Rightarrow> content f)"

text \<open>The states of the disk that \<^verbatim>\<open>updateMetaData\<close> goes through on the meta-data
  file before it calls the archive: the disk before the call, after the stream is opened,
  and after the document is written and the stream closed.\<close>

definition metaDataFile_states :: "externals \<Rightarrow> SerializerImpl \<Rightarrow> filesystem \<Rightarrow> filesystem list" where
  "metaDataFile_states X s fs =
     (case open_trunc fs (s_metaDataFile s) of
        None \<Rightarrow> [fs]
      | Some fs1 \<Rightarrow> [fs, fs1, write_close fs1 (s_metaDataFile s) (toJSON X s)])"


subsection \<open>write\<close>


subsection \<open>read\<close>

definition SerializerImpl_read :: "externals \<Rightarrow> SerializerImpl \<Rightarrow> filesystem \<Rightarrow> string \<Rightarrow> SavepointImpl \<Rightarrow> StorageView
    \<Rightarrow> error + StorageView" where
  "SerializerImpl_read X s fs name savepoint storageView =
     (if s_mode s \<noteq> Read then Inl SerializerNotReadable
      else case checkStorageView s name storageView of
        Inl e \<Rightarrow> Inl e
      | Inr _ \<Rightarrow>
         (let savepointIdx = SavepointVector_find (s_savepointVector s) savepoint
          in if savepointIdx = -1 then Inl SavepointNotFound
             else case SavepointVector_getFieldID (s_savepointVector s) savepointIdx name of
                    Inl e \<Rightarrow> Inl e
                  | Inr fieldID \<Rightarrow> archive_read X (s_archive s) fs storageView fieldID))"

subsection \<open>constructMetaDataFromJson\<close>

text \<open>The checks and constructions inside the \<^verbatim>\<open>try\<close> block, on the parsed document.\<close>

definition parse_document :: "externals \<Rightarrow> SerializerImpl \<Rightarrow> json \<Rightarrow> error + SerializerImpl" where
  "parse_document X s jsonNode =
     (if json_count jsonNode ''serialbox_version'' = 0 then Inl VersionNodeMissing
      else try_bind (try_bind (json_at jsonNode ''serialbox_version'') json_to_int)
        (\<lambda>serialboxVersion.
         if \<not> version_match X serialboxVersion then Inl VersionMismatch
         else if json_count jsonNode ''prefix'' = 0 then Inl PrefixNodeMissing
         else if json_at jsonNode ''prefix'' \<noteq> Inr (JString (s_prefix s)) then Inl PrefixMismatch
         else
           try_bind
             (if json_count jsonNode ''global_meta_info'' \<noteq> 0
              then try_bind (try_bind (json_at jsonNode ''global_meta_info'') (MetaInfoMap_fromJSON X))
                     (\<lambda>m. Inr (s\<lparr>s_globalMetaInfo := m\<rparr>))
              else Inr s)
           (\<lambda>s1. try_bind
             (if json_count jsonNode ''savepoint_vector'' \<noteq> 0
              then try_bind (try_bind (json_at jsonNode ''savepoint_vector'') (SavepointVector_fromJSON X))
                     (\<lambda>sv. Inr (s1\<lparr>s_savepointVector := sv\<rparr>))
              else Inr s1)
           (\<lambda>s2.
              if json_count jsonNode ''field_map'' \<noteq> 0
              then try_bind (try_bind (json_at jsonNode ''field_map'')
                               (FieldMap_fromJSON (FieldMetaInfo_fromJSON X)))
                     (\<lambda>fm. Inr (s2\<lparr>s_fieldMap := fm\<rparr>))
              else Inr s2))))"

text \<open>The method is called by the constructor only, so a raise leaves no serializer
  behind, and it does not write to the disk.\<close>

definition constructMetaDataFromJson :: "externals \<Rightarrow> SerializerImpl \<Rightarrow> filesystem \<Rightarrow> error + SerializerImpl" where
  "constructMetaDataFromJson X s fs =
     try_bind (fs_exists fs (s_metaDataFile s))
       (\<lambda>ex.
          if \<not> ex then (if s_mode s \<noteq> Read then Inr s else Inl MetadataNotFound)
          else case fs_parse fs (s_metaDataFile s) of
                 None \<Rightarrow> Inl JsonParserError
               | Some jsonNode \<Rightarrow>
                   (case parse_document X s jsonNode of
                      Inl e \<Rightarrow> Inl (if is_Exception e then ErrorWhileParsing e else e)
                    | Inr s' \<Rightarrow> Inr s'))"


subsection \<open>upgradeMetaData: deducing types\<close>

text \<open>\<^verbatim>\<open>boost::algorithm::starts_with(key, "__")\<close>\<close>

definition starts_with :: "string \<Rightarrow> string \<Rightarrow> bool" where
  "starts_with key p = (take (length p) key = p)"

text \<open>The guess of the floating point type: Float32 when the fields table is present,
  not empty, and the element type of its entry 0 is "float"; Float64 otherwise.\<close>

definition deduceFloatType :: "json \<Rightarrow> error + TypeID" where
  "deduceFloatType oldJson =
     (if json_count oldJson ''FieldsTable'' \<noteq> 0
      then try_bind (json_at oldJson ''FieldsTable'')
        (\<lambda>table.
           if json_size table > 0
           then try_bind (try_bind (json_index table 0) (\<lambda>entry. json_at_mut entry ''__elementtype''))
                  (\<lambda>elementtype. Inr (if elementtype = JString ''float'' then Float32 else Float64))
           else Inr Float64)
      else Inr Float64)"

text \<open>The chain of tests \<^verbatim>\<open>is_string\<close>, \<^verbatim>\<open>is_boolean\<close>, \<^verbatim>\<open>is_number_integer\<close>,
  \<^verbatim>\<open>is_number_float\<close> that the three loops over legacy meta-information share; \<open>None\<close>
  is its last branch, which raises.\<close>

fun deduce_value :: "TypeID \<Rightarrow> json \<Rightarrow> MetaInfoValue option" where
  "deduce_value floatType (JString v) = Some (MString v)"
| "deduce_value floatType (JBool b) = Some (MBool b)"
| "deduce_value floatType (JInt i) = Some (MInt32 (int32_of i))"
| "deduce_value floatType (JFloat r) =
     Some (if floatType = Float32 then narrow_float r else MFloat64 r)"
| "deduce_value floatType _ = None"

text \<open>
  Modelled from the spec: \<^verbatim>\<open>addGlobalMetaInfo\<close> and \<^verbatim>\<open>SavepointImpl::addMetaInfo\<close> are
  declared in headers that are not among the sources. They insert the pair into the
  meta-information map of the serializer and of the savepoint.
\<close>

definition addMetaInfo :: "MetaInfoMap \<Rightarrow> string \<Rightarrow> MetaInfoValue \<Rightarrow> MetaInfoMap" where
  "addMetaInfo m key v = snd (MetaInfoMap_insert m key v)"

text \<open>The loop over \<^verbatim>\<open>GlobalMetainfo\<close>: keys that start with two underscores are
  skipped.\<close>

fun upgrade_global :: "TypeID \<Rightarrow> (string \<times> json) list \<Rightarrow> MetaInfoMap \<Rightarrow> error + MetaInfoMap" where
  "upgrade_global floatType [] m = Inr m"
| "upgrade_global floatType ((key, val) # rest) m =
     (if \<not> starts_with key ''__''
      then (case deduce_value floatType val of
              None \<Rightarrow> Inl UpgradeTypeInferenceFailure
            | Some v \<Rightarrow> upgrade_global floatType rest (addMetaInfo m key v))
      else upgrade_global floatType rest m)"

subsection \<open>upgradeMetaData: the fields table\<close>

text \<open>The loop over the members of one entry of \<^verbatim>\<open>FieldsTable\<close>: every key is
  inserted, there is no test on the key.\<close>

fun upgrade_field_metainfo :: "TypeID \<Rightarrow> (string \<times> json) list \<Rightarrow> MetaInfoMap \<Rightarrow> error + MetaInfoMap" where
  "upgrade_field_metainfo floatType [] metaInfo = Inr metaInfo"
| "upgrade_field_metainfo floatType ((key, val) # rest) metaInfo =
     (case deduce_value floatType val of
        None \<Rightarrow> Inl UpgradeTypeInferenceFailure
      | Some v \<Rightarrow> upgrade_field_metainfo floatType rest (snd (MetaInfoMap_insert metaInfo key v)))"

definition elementtype_TypeID :: "string \<Rightarrow> TypeID" where
  "elementtype_TypeID elementtype =
     (if elementtype = ''int'' then Int32
      else if elementtype = ''float'' then Float32
      else if elementtype = ''double'' then Float64
      else Float64)"

text \<open>The body of the loop over \<^verbatim>\<open>FieldsTable\<close>, up to the insertion: the name and the
  meta-information of the field of one entry.\<close>

definition upgrade_field :: "TypeID \<Rightarrow> json \<Rightarrow> error + string \<times> FieldMetaInfo" where
  "upgrade_field floatType fieldInfo =
     try_bind (try_bind (json_at fieldInfo ''__name'') json_to_string) (\<lambda>name.
     try_bind (try_bind (json_at fieldInfo ''__elementtype'') json_to_string) (\<lambda>elementtype.
     try_bind (try_bind (json_at fieldInfo ''__isize'') json_to_int) (\<lambda>isize.
     try_bind (try_bind (json_at fieldInfo ''__jsize'') json_to_int) (\<lambda>jsize.
     try_bind (try_bind (json_at fieldInfo ''__ksize'') json_to_int) (\<lambda>ksize.
     try_bind
       (if json_count fieldInfo ''__lsize'' \<noteq> 0
        then try_bind (try_bind (json_at fieldInfo ''__lsize'') json_to_int)
               (\<lambda>lsize. Inr [isize, jsize, ksize, lsize])
        else Inr [isize, jsize, ksize]) (\<lambda>dims.
     try_bind (try_bind (json_items fieldInfo)
                 (\<lambda>items. upgrade_field_metainfo floatType items [])) (\<lambda>metaInfo.
     Inr (name, \<lparr>fmi_type = elementtype_TypeID elementtype, fmi_dims = dims,
                 fmi_metaInfo = metaInfo\<rparr>))))))))"

text \<open>\<^verbatim>\<open>table[i]\<close> for \<^verbatim>\<open>i < table.size()\<close>: the elements of an array; nothing when the
  size is 0; indexing raises on an object or a scalar.\<close>

fun json_elements :: "json \<Rightarrow> error + json list" where
  "json_elements (JArray xs) = Inr xs"
| "json_elements JNull = Inr []"
| "json_elements (JObject []) = Inr []"
| "json_elements _ = Inl JsonError"

text \<open>The loop over \<^verbatim>\<open>FieldsTable\<close>; the value \<^verbatim>\<open>fieldMap_.insert\<close> returns is not
  looked at.\<close>

fun upgrade_fields_table :: "TypeID \<Rightarrow> json list \<Rightarrow> FieldMap \<Rightarrow> error + FieldMap" where
  "upgrade_fields_table floatType [] fm = Inr fm"
| "upgrade_fields_table floatType (fieldInfo # rest) fm =
     try_bind (upgrade_field floatType fieldInfo)
       (\<lambda>(name, info). upgrade_fields_table floatType rest (snd (FieldMap_insert fm name info)))"

subsection \<open>upgradeMetaData: the offset table\<close>

text \<open>The loop over the savepoint's own members: keys that start with two underscores
  are skipped.\<close>

fun upgrade_savepoint_metainfo :: "TypeID \<Rightarrow> (string \<times> json) list \<Rightarrow> MetaInfoMap \<Rightarrow> error + MetaInfoMap" where
  "upgrade_savepoint_metainfo floatType [] m = Inr m"
| "upgrade_savepoint_metainfo floatType ((key, val) # rest) m =
     (if \<not> starts_with key ''__''
      then (case deduce_value floatType val of
              None \<Rightarrow> Inl UpgradeTypeInferenceFailure
            | Some v \<Rightarrow> upgrade_savepoint_metainfo floatType rest (addMetaInfo m key v))
      else upgrade_savepoint_metainfo floatType rest m)"

text \<open>The first index of the offset table whose checksum is the given one.\<close>

fun find_checksum :: "FileOffsetType list \<Rightarrow> string \<Rightarrow> nat \<Rightarrow> nat option" where
  "find_checksum [] c i = None"
| "find_checksum (x # xs) c i = (if c = checksum x then Some i else find_checksum xs c (Suc i))"

definition table_update :: "FieldTable \<Rightarrow> string \<Rightarrow> FileOffsetType list \<Rightarrow> FieldTable" where
  "table_update fieldTable fieldname t =
     map (\<lambda>(k, v). if k = fieldname then (k, t) else (k, v)) fieldTable"

text \<open>The insertion of one offset into the field table of the archive; the result is
  the id of the field and the table.\<close>

definition upgrade_offset :: "FieldTable \<Rightarrow> string \<Rightarrow> FileOffsetType \<Rightarrow> error + nat \<times> FieldTable" where
  "upgrade_offset fieldTable fieldname fileOffset =
     (case map_of fieldTable fieldname of
        Some fieldOffsetTable \<Rightarrow>
          (case find_checksum fieldOffsetTable (checksum fileOffset) 0 of
             Some i \<Rightarrow> Inr (i, fieldTable)
           | None \<Rightarrow>
               if offset fileOffset = 0 then Inl CheckFailed
               else Inr (length fieldOffsetTable,
                         table_update fieldTable fieldname (fieldOffsetTable @ [fileOffset])))
      | None \<Rightarrow>
          if offset fileOffset \<noteq> 0 then Inl CheckFailed
          else Inr (0, fieldTable @ [(fieldname, [fileOffset])]))"

text \<open>The loop over \<^verbatim>\<open>__offsets\<close> of one savepoint.\<close>

fun upgrade_offsets :: "(string \<times> json) list \<Rightarrow> int \<Rightarrow> SavepointVector \<Rightarrow> FieldTable
    \<Rightarrow> error + SavepointVector \<times> FieldTable" where
  "upgrade_offsets [] savepointIdx sv fieldTable = Inr (sv, fieldTable)"
| "upgrade_offsets ((fieldname, val) # rest) savepointIdx sv fieldTable =
     try_bind (try_bind (json_index val 0) json_to_streamoff) (\<lambda>off.
     try_bind (try_bind (json_index val 1) json_to_string) (\<lambda>cs.
     try_bind (upgrade_offset fieldTable fieldname \<lparr>offset = off, checksum = cs\<rparr>) (\<lambda>(i, fieldTable').
     try_bind (SavepointVector_addField sv savepointIdx \<lparr>fid_name = fieldname, fid_id = i\<rparr>) (\<lambda>sv'.
     upgrade_offsets rest savepointIdx sv' fieldTable'))))"

text \<open>The body of the loop over \<^verbatim>\<open>OffsetTable\<close>: first the savepoint with its
  meta-information, then its registration and its offsets.\<close>

definition legacy_savepoint :: "TypeID \<Rightarrow> json \<Rightarrow> error + SavepointImpl" where
  "legacy_savepoint floatType offsetTableEntry =
     try_bind (try_bind (json_at offsetTableEntry ''__name'') json_to_string) (\<lambda>name.
     try_bind (try_bind (json_items offsetTableEntry)
                 (\<lambda>items. upgrade_savepoint_metainfo floatType items [])) (\<lambda>metaInfo.
     Inr \<lparr>sp_name = name, sp_metaInfo = metaInfo\<rparr>))"

definition upgrade_savepoint :: "TypeID \<Rightarrow> json \<Rightarrow> SavepointVector \<Rightarrow> FieldTable
    \<Rightarrow> error + SavepointVector \<times> FieldTable" where
  "upgrade_savepoint floatType offsetTableEntry sv fieldTable =
     try_bind (legacy_savepoint floatType offsetTableEntry) (\<lambda>savepoint.
     case SavepointVector_insert sv savepoint of
       (savepointIdx, sv1) \<Rightarrow>
         if savepointIdx = -1 then Inl CheckFailed
         else try_bind (try_bind (json_at offsetTableEntry ''__offsets'') json_items)
                (\<lambda>offsets. upgrade_offsets offsets savepointIdx sv1 fieldTable))"

fun upgrade_offset_table :: "TypeID \<Rightarrow> json list \<Rightarrow> SavepointVector \<Rightarrow> FieldTable
    \<Rightarrow> error + SavepointVector \<times> FieldTable" where
  "upgrade_offset_table floatType [] sv fieldTable = Inr (sv, fieldTable)"
| "upgrade_offset_table floatType (entry # rest) sv fieldTable =
     try_bind (upgrade_savepoint floatType entry sv fieldTable)
       (\<lambda>(sv', fieldTable'). upgrade_offset_table floatType rest sv' fieldTable')"


subsection \<open>upgradeMetaData\<close>

text \<open>The \<^verbatim>\<open>try\<close> block that decides whether an upgrade is necessary: false when the
  legacy file does not exist, and when the meta-data file exists and the legacy file was
  written strictly before it. A \<^verbatim>\<open>filesystem_error\<close> is rethrown as an
  \<^verbatim>\<open>Exception\<close>.\<close>

definition upgrade_necessary :: "filesystem \<Rightarrow> string \<Rightarrow> string \<Rightarrow> error + bool" where
  "upgrade_necessary fs oldMetaDataFile metaDataFile =
     (case fs_exists fs oldMetaDataFile of
        Inl _ \<Rightarrow> Inl FilesystemError
      | Inr old_exists \<Rightarrow>
          if \<not> old_exists then Inr False
          else (case fs_exists fs metaDataFile of
                  Inl _ \<Rightarrow> Inl FilesystemError
                | Inr new_exists \<Rightarrow>
                    if \<not> new_exists then Inr True
                    else (case fs_last_write_time fs oldMetaDataFile of
                            Inl _ \<Rightarrow> Inl FilesystemError
                          | Inr t_old \<Rightarrow>
                              (case fs_last_write_time fs metaDataFile of
                                 Inl _ \<Rightarrow> Inl FilesystemError
                               | Inr t_new \<Rightarrow> Inr (\<not> t_old < t_new)))))"

text \<open>The upgrade of the members from the legacy document. The archive is made anew
  without reading its meta-data, so its field table starts empty.\<close>

definition upgrade_document :: "SerializerImpl \<Rightarrow> json \<Rightarrow> error + SerializerImpl" where
  "upgrade_document s oldJson =
     try_bind (deduceFloatType oldJson) (\<lambda>globalMetaInfoFloatType.
     try_bind
       (if json_count oldJson ''GlobalMetainfo'' \<noteq> 0
        then try_bind (try_bind (json_at oldJson ''GlobalMetainfo'') json_items)
               (\<lambda>items. upgrade_global globalMetaInfoFloatType items (s_globalMetaInfo s))
        else Inr (s_globalMetaInfo s)) (\<lambda>globalMetaInfo.
     try_bind
       (if json_count oldJson ''FieldsTable'' \<noteq> 0
        then try_bind (try_bind (json_at oldJson ''FieldsTable'') json_elements)
               (\<lambda>fieldsTable. upgrade_fields_table globalMetaInfoFloatType fieldsTable (s_fieldMap s))
        else Inr (s_fieldMap s)) (\<lambda>fieldMap.
     try_bind
       (if json_count oldJson ''OffsetTable'' \<noteq> 0
        then try_bind (try_bind (json_at oldJson ''OffsetTable'') json_elements)
               (\<lambda>offsetTable. upgrade_offset_table globalMetaInfoFloatType offsetTable
                                 (s_savepointVector s) [])
        else Inr (s_savepointVector s, [])) (\<lambda>(savepointVector, fieldTable).
     Inr (s\<lparr>s_globalMetaInfo := globalMetaInfo, s_fieldMap := fieldMap,
             s_savepointVector := savepointVector, s_archive := fieldTable\<rparr>)))))"

text \<open>The method is called by the constructor only. It returns whether it upgraded, with
  the serializer and the disk; the \<^verbatim>\<open>catch(Exception&)\<close> around the final
  \<^verbatim>\<open>updateMetaData\<close> swallows the error.\<close>

definition upgradeMetaData :: "externals \<Rightarrow> SerializerImpl \<Rightarrow> filesystem
    \<Rightarrow> error + bool \<times> SerializerImpl \<times> filesystem" where
  "upgradeMetaData X s fs =
     (let oldMetaDataFile = path_join (s_directory s) (s_prefix s @ ''.json'')
      in try_bind (upgrade_necessary fs oldMetaDataFile (s_metaDataFile s)) (\<lambda>necessary.
           if \<not> necessary then Inr (False, s, fs)
           else if s_mode s \<noteq> Read then Inl UpgradeReadOnly
           else if \<not> fs_is_open_in fs oldMetaDataFile then Inl UpgradeCannotOpen
           else case fs_parse fs oldMetaDataFile of
                  None \<Rightarrow> Inl JsonError
                | Some oldJson \<Rightarrow>
                    try_bind (upgrade_document s oldJson) (\<lambda>s'.
                      case updateMetaData X s' fs of
                        (Inl e, fs') \<Rightarrow> if is_Exception e then Inr (True, s', fs') else Inl e
                      | (Inr _, fs') \<Rightarrow> Inr (True, s', fs'))))"

subsection \<open>The constructor\<close>

definition clear :: "externals \<Rightarrow> SerializerImpl \<Rightarrow> filesystem \<Rightarrow> SerializerImpl \<times> filesystem" where
  "clear X s fs =
     (case archive_clear X (s_archive s) fs of
        (fieldTable, fs') \<Rightarrow>
          (s\<lparr>s_savepointVector := [], s_fieldMap := [],
             s_globalMetaInfo := [], s_archive := fieldTable\<rparr>, fs'))"

text \<open>The members after the initialiser list and the first statement.\<close>

definition initial_members :: "OpenModeKind \<Rightarrow> string \<Rightarrow> string \<Rightarrow> SerializerImpl" where
  "initial_members mode directory prefix =
     \<lparr>s_mode = mode, s_directory = directory, s_prefix = prefix,
      s_metaDataFile = path_join directory (''MetaData-'' @ prefix @ ''.json''),
      s_savepointVector = [], s_fieldMap = [],
      s_globalMetaInfo = [], s_archive = []\<rparr>"

text \<open>What the constructor does when \<^verbatim>\<open>upgradeMetaData\<close> returned false: the
  members are constructed from the meta-data file and the archive is created by the
  factory.\<close>

definition construct_normally :: "externals \<Rightarrow> string \<Rightarrow> SerializerImpl \<Rightarrow> filesystem
    \<Rightarrow> error + SerializerImpl \<times> filesystem" where
  "construct_normally X archiveName s fs =
     try_bind (constructMetaDataFromJson X s fs) (\<lambda>s1.
     try_bind (archive_create X archiveName (s_mode s) (s_directory s) (s_prefix s) fs)
       (\<lambda>(fieldTable, fs1). Inr (s1\<lparr>s_archive := fieldTable\<rparr>, fs1)))"

definition SerializerImpl_new :: "externals \<Rightarrow> OpenModeKind \<Rightarrow> string \<Rightarrow> string \<Rightarrow> string \<Rightarrow> filesystem
    \<Rightarrow> error + SerializerImpl \<times> filesystem" where
  "SerializerImpl_new X mode directory prefix archiveName fs =
     (let s0 = initial_members mode directory prefix
      in try_bind
           (if mode = Read
            then (case fs_exists fs directory of
                    Inl _ \<Rightarrow> Inl FilesystemError
                  | Inr ex \<Rightarrow> if \<not> ex then Inl DirectoryMissing else Inr ())
            else Inr ()) (\<lambda>_.
         try_bind (upgradeMetaData X s0 fs) (\<lambda>(upgraded, s1, fs1).
         try_bind
           (if \<not> upgraded then construct_normally X archiveName s1 fs1 else Inr (s1, fs1))
           (\<lambda>(s2, fs2). Inr (if mode = Write then clear X s2 fs2 else (s2, fs2))))))"


section \<open>An instance of the parameters\<close>

text \<open>
  The examples below need the parameters at concrete values. The library is at version
  2.0.1 and accepts that version only. The archive is a small in-memory archive in the
  manner of the binary archive: a payload already in the table of its field is not
  stored twice, the checksum of a payload is the payload, and the archive keeps no
  meta-data file of its own. A value of a meta-information map is written as the pair of
  its type and its payload (an infinity as null, which is how the JSON library prints
  it), a meta-information map as the object of its values, a savepoint as its name, its
  meta-information and the ids of its fields; the meta-information of a field is written
  as the array of its dimensions and read back as a Float64 field.
\<close>

definition example_archive_write :: "FieldTable \<Rightarrow> filesystem \<Rightarrow> StorageView \<Rightarrow> string
    \<Rightarrow> (error + FieldID) \<times> FieldTable \<times> filesystem" where
  "example_archive_write fieldTable fs storageView name =
     (case map_of fieldTable name of
        None \<Rightarrow>
          (Inr \<lparr>fid_name = name, fid_id = 0\<rparr>,
           fieldTable @ [(name, [\<lparr>offset = 0, checksum = view_data storageView\<rparr>])], fs)
      | Some t \<Rightarrow>
          (case find_checksum t (view_data storageView) 0 of
             Some k \<Rightarrow> (Inr \<lparr>fid_name = name, fid_id = k\<rparr>, fieldTable, fs)
           | None \<Rightarrow>
               (Inr \<lparr>fid_name = name, fid_id = length t\<rparr>,
                table_update fieldTable name
                  (t @ [\<lparr>offset = int (length t), checksum = view_data storageView\<rparr>]), fs)))"

definition example_archive_read :: "FieldTable \<Rightarrow> filesystem \<Rightarrow> StorageView \<Rightarrow> FieldID \<Rightarrow> error + StorageView" where
  "example_archive_read fieldTable fs storageView fieldID =
     (case map_of fieldTable (fid_name fieldID) of
        None \<Rightarrow> Inl ArchiveError
      | Some t \<Rightarrow>
          if fid_id fieldID < length t
          then Inr (storageView\<lparr>view_data := checksum (t ! fid_id fieldID)\<rparr>)
          else Inl ArchiveError)"

definition example_dims_fromJSON :: "json \<Rightarrow> error + FieldMetaInfo" where
  "example_dims_fromJSON j =
     (case j of
        JArray xs \<Rightarrow>
          Inr \<lparr>fmi_type = Float64, fmi_dims = map (\<lambda>x. case x of JInt i \<Rightarrow> i | _ \<Rightarrow> 0) xs,
               fmi_metaInfo = []\<rparr>
      | _ \<Rightarrow> Inl JsonError)"

fun example_value_toJSON :: "MetaInfoValue \<Rightarrow> json" where
  "example_value_toJSON (MString v) = JArray [JString ''String'', JString v]"
| "example_value_toJSON (MBool b) = JArray [JString ''Boolean'', JBool b]"
| "example_value_toJSON (MInt32 i) = JArray [JString ''Int32'', JInt i]"
| "example_value_toJSON (MFloat32 r) = JArray [JString ''Float32'', JFloat r]"
| "example_value_toJSON (MFloat32_inf n) = JArray [JString ''Float32'', JNull]"
| "example_value_toJSON (MFloat64 r) = JArray [JString ''Float64'', JFloat r]"

definition example_value_fromJSON :: "json \<Rightarrow> error + MetaInfoValue" where
  "example_value_fromJSON j =
     try_bind (try_bind (json_index j 0) json_to_string) (\<lambda>t.
     try_bind (json_index j 1) (\<lambda>v.
       case v of
         JString x \<Rightarrow> if t = ''String'' then Inr (MString x) else Inl JsonError
       | JBool b \<Rightarrow> if t = ''Boolean'' then Inr (MBool b) else Inl JsonError
       | JInt i \<Rightarrow> if t = ''Int32'' then Inr (MInt32 i) else Inl JsonError
       | JFloat r \<Rightarrow> if t = ''Float32'' then Inr (MFloat32 r)
                     else if t = ''Float64'' then Inr (MFloat64 r) else Inl JsonError
       | _ \<Rightarrow> Inl JsonError))"

definition example_MetaInfoMap_toJSON :: "MetaInfoMap \<Rightarrow> json" where
  "example_MetaInfoMap_toJSON m = JObject (map (\<lambda>(k, v). (k, example_value_toJSON v)) m)"

fun example_values_fromJSON :: "(string \<times> json) list \<Rightarrow> error + MetaInfoMap" where
  "example_values_fromJSON [] = Inr []"
| "example_values_fromJSON ((k, j) # rest) =
     try_bind (example_value_fromJSON j) (\<lambda>v.
     try_bind (example_values_fromJSON rest) (\<lambda>m. Inr ((k, v) # m)))"

definition example_MetaInfoMap_fromJSON :: "json \<Rightarrow> error + MetaInfoMap" where
  "example_MetaInfoMap_fromJSON j = try_bind (json_items j) example_values_fromJSON"

definition example_savepoint_toJSON :: "SavepointImpl \<times> (string \<times> nat) list \<Rightarrow> json" where
  "example_savepoint_toJSON e =
     JObject [(''name'', JString (sp_name (fst e))),
              (''meta_info'', example_MetaInfoMap_toJSON (sp_metaInfo (fst e))),
              (''fields'', JObject (map (\<lambda>(n, i). (n, JInt (int i))) (snd e)))]"

fun example_ids_fromJSON :: "(string \<times> json) list \<Rightarrow> error + (string \<times> nat) list" where
  "example_ids_fromJSON [] = Inr []"
| "example_ids_fromJSON ((n, j) # rest) =
     try_bind (json_to_int j) (\<lambda>i.
     try_bind (example_ids_fromJSON rest) (\<lambda>fl. Inr ((n, nat i) # fl)))"

definition example_savepoint_fromJSON :: "json \<Rightarrow> error + SavepointImpl \<times> (string \<times> nat) list" where
  "example_savepoint_fromJSON j =
     try_bind (try_bind (json_at j ''name'') json_to_string) (\<lambda>name.
     try_bind (try_bind (json_at j ''meta_info'') example_MetaInfoMap_fromJSON) (\<lambda>metaInfo.
     try_bind (try_bind (try_bind (json_at j ''fields'') json_items) example_ids_fromJSON) (\<lambda>fl.
     Inr (\<lparr>sp_name = name, sp_metaInfo = metaInfo\<rparr>, fl))))"

fun example_savepoints_fromJSON :: "json list \<Rightarrow> error + SavepointVector" where
  "example_savepoints_fromJSON [] = Inr []"
| "example_savepoints_fromJSON (j # rest) =
     try_bind (example_savepoint_fromJSON j) (\<lambda>e.
     try_bind (example_savepoints_fromJSON rest) (\<lambda>sv. Inr (e # sv)))"

definition example_externals :: externals where
  "example_externals =
     \<lparr>version_major = 2, version_minor = 0, version_patch = 1,
      version_match = (\<lambda>v. v = 201),
      MetaInfoMap_toJSON = example_MetaInfoMap_toJSON,
      MetaInfoMap_fromJSON = example_MetaInfoMap_fromJSON,
      SavepointVector_toJSON = (\<lambda>sv. JArray (map example_savepoint_toJSON sv)),
      SavepointVector_fromJSON = (\<lambda>j. try_bind (json_elements j) example_savepoints_fromJSON),
      FieldMetaInfo_toJSON = (\<lambda>info. JArray (map JInt (fmi_dims info))),
      FieldMetaInfo_fromJSON = example_dims_fromJSON,
      archive_write = example_archive_write,
      archive_read = example_archive_read,
      archive_updateMetaData = (\<lambda>fieldTable fs. (Inr (), fs)),
      archive_clear = (\<lambda>fieldTable fs. ([], fs)),
      archive_create = (\<lambda>archiveName mode directory prefix fs. Inr ([], fs))\<rparr>"

text \<open>A disk with the directory \<open>d\<close> and the given files, on which nothing is denied
  and no status query fails.\<close>

definition example_disk :: "(string \<times> disk_file) list \<Rightarrow> filesystem" where
  "example_disk fl =
     \<lparr>files = map_of fl, directories = (\<lambda>p. if p = ''d'' then Some 0 else None),
      stat_fails = (\<lambda>p. False), read_denied = (\<lambda>p. False), write_denied = (\<lambda>p. False),
      now = 100\<rparr>"


text \<open>A legacy document with one global value, the field \<open>u\<close> of shape 2 x 2 x 1 and
  element type double with the attribute \<open>units\<close>, and the savepoint \<open>sp0\<close> that holds \<open>u\<close> at offset 0 with
  checksum \<open>h\<close>; and the members a serializer in mode Read has after its upgrade.\<close>

definition example_legacy_document :: json where
  "example_legacy_document = JObject
     [(''GlobalMetainfo'', JObject [(''__format'', JString ''old''), (''dt'', JFloat 1.5)]),
      (''FieldsTable'', JArray
         [JObject [(''__name'', JString ''u''), (''__elementtype'', JString ''double''),
                   (''__isize'', JInt 2), (''__jsize'', JInt 2), (''__ksize'', JInt 1),
                   (''units'', JString ''m'')]]),
      (''OffsetTable'', JArray
         [JObject [(''__name'', JString ''sp0''), (''step'', JInt 3),
                   (''__offsets'', JObject [(''u'', JArray [JInt 0, JString ''h''])])]])]"

definition example_upgraded :: SerializerImpl where
  "example_upgraded =
     \<lparr>s_mode = Read, s_directory = ''d'', s_prefix = ''p'',
      s_metaDataFile = ''d/MetaData-p.json'',
      s_savepointVector =
        [(\<lparr>sp_name = ''sp0'', sp_metaInfo = [(''step'', MInt32 3)]\<rparr>, [(''u'', 0)])],
      s_fieldMap =
        [(''u'', \<lparr>fmi_type = Float64, fmi_dims = [2, 2, 1],
                  fmi_metaInfo =
                    [(''__name'', MString ''u''), (''__elementtype'', MString ''double''),
                     (''__isize'', MInt32 2), (''__jsize'', MInt32 2), (''__ksize'', MInt32 1),
                     (''units'', MString ''m'')]\<rparr>)],
      s_globalMetaInfo = [(''dt'', MFloat64 1.5)],
      s_archive = [(''u'', [\<lparr>offset = 0, checksum = ''h''\<rparr>])]\<rparr>"

text \<open>A meta-data document of version 2.0.1 and prefix \<open>p\<close> with one global value,
  the savepoint \<open>sp0\<close> that holds \<open>u\<close>, and the field \<open>u\<close> of shape 2 x 2 x 1; and the
  members a serializer in mode Append has after it read the document.\<close>

definition example_metadata_document :: json where
  "example_metadata_document = JObject
     [(''serialbox_version'', JInt 201),
      (''prefix'', JString ''p''),
      (''global_meta_info'', JObject [(''dt'', JArray [JString ''Float64'', JFloat 1.5])]),
      (''savepoint_vector'', JArray
         [JObject [(''name'', JString ''sp0''),
                   (''meta_info'', JObject [(''step'', JArray [JString ''Int32'', JInt 3])]),
                   (''fields'', JObject [(''u'', JInt 0)])]]),
      (''field_map'', JObject
         [(''field_map'', JObject [(''u'', JArray [JInt 2, JInt 2, JInt 1])])])]"

definition example_constructed :: SerializerImpl where
  "example_constructed =
     \<lparr>s_mode = Append, s_directory = ''d'', s_prefix = ''p'',
      s_metaDataFile = ''d/MetaData-p.json'',
      s_savepointVector =
        [(\<lparr>sp_name = ''sp0'', sp_metaInfo = [(''step'', MInt32 3)]\<rparr>, [(''u'', 0)])],
      s_fieldMap = [(''u'', \<lparr>fmi_type = Float64, fmi_dims = [2, 2, 1], fmi_metaInfo = []\<rparr>)],
      s_globalMetaInfo = [(''dt'', MFloat64 1.5)],
      s_archive = []\<rparr>"

text \<open>A legacy document whose first field has element type float, with a global value
  that a \<^verbatim>\<open>float\<close> cannot hold (\<open>2 ^ 24 + 1\<close>); and the members a serializer in mode
  Read has after its upgrade.\<close>

definition example_float_document :: json where
  "example_float_document = JObject
     [(''GlobalMetainfo'', JObject [(''n'', JFloat 16777217)]),
      (''FieldsTable'', JArray
         [JObject [(''__name'', JString ''u''), (''__elementtype'', JString ''float''),
                   (''__isize'', JInt 2), (''__jsize'', JInt 2), (''__ksize'', JInt 1)]])]"

definition example_float_upgraded :: SerializerImpl where
  "example_float_upgraded =
     \<lparr>s_mode = Read, s_directory = ''d'', s_prefix = ''p'',
      s_metaDataFile = ''d/MetaData-p.json'',
      s_savepointVector = [],
      s_fieldMap =
        [(''u'', \<lparr>fmi_type = Float32, fmi_dims = [2, 2, 1],
                  fmi_metaInfo =
                    [(''__name'', MString ''u''), (''__elementtype'', MString ''float''),
                     (''__isize'', MInt32 2), (''__jsize'', MInt32 2), (''__ksize'', MInt32 1)]\<rparr>)],
      s_globalMetaInfo = [(''n'', MFloat32 16777216)],
      s_archive = []\<rparr>"

text \<open>The entry of the field \<open>u\<close> in the fields table of the first legacy
  document.\<close>

definition example_field_entry :: json where
  "example_field_entry =
     JObject [(''__name'', JString ''u''), (''__elementtype'', JString ''double''),
              (''__isize'', JInt 2), (''__jsize'', JInt 2), (''__ksize'', JInt 1),
              (''units'', JString ''m'')]"

text \<open>A legacy document whose fields table has a field of element type double first
  and a field of element type float second, and one global value that is a JSON float.\<close>

definition example_mixed_document :: json where
  "example_mixed_document = JObject
     [(''GlobalMetainfo'', JObject [(''dt'', JFloat 1.5)]),
      (''FieldsTable'', JArray
         [JObject [(''__name'', JString ''u''), (''__elementtype'', JString ''double''),
                   (''__isize'', JInt 2), (''__jsize'', JInt 2), (''__ksize'', JInt 1)],
          JObject [(''__name'', JString ''v''), (''__elementtype'', JString ''float''),
                   (''__isize'', JInt 2), (''__jsize'', JInt 2), (''__ksize'', JInt 1)]])]"

section \<open>The field map and its JSON form\<close>

lemma obj_assign_fresh: "k \<notin> fst ` set kvs \<Longrightarrow> obj_assign kvs k v = kvs @ [(k, v)]"
  by (induction kvs) auto

lemma toJSON_loop_distinct:
  "distinct (map fst node @ map fst fm) \<Longrightarrow>
   toJSON_loop toJ fm node = node @ map (\<lambda>(name, info). (name, toJ info)) fm"
proof (induction fm arbitrary: node)
  case Nil
  then show ?case by simp
next
  case (Cons a fm)
  obtain name info where a: "a = (name, info)" by (cases a)
  from Cons.prems a have fresh: "name \<notin> fst ` set node" by auto
  from Cons.prems a have d: "distinct (map fst (node @ [(name, toJ info)]) @ map fst fm)" by auto
  show ?case using Cons.IH [OF d] fresh a by (simp add: obj_assign_fresh)
qed

lemma fromJSON_loop_distinct:
  "distinct (map fst acc @ map fst fm) \<Longrightarrow>
   \<forall>(name, info) \<in> set fm. fromJ (toJ info) = Inr info \<Longrightarrow>
   fromJSON_loop fromJ (map (\<lambda>(name, info). (name, toJ info)) fm) acc = Inr (acc @ fm)"
proof (induction fm arbitrary: acc)
  case Nil
  then show ?case by simp
next
  case (Cons a fm)
  obtain name info where a: "a = (name, info)" by (cases a)
  from Cons.prems a have fresh: "map_of acc name = None"
    by (auto simp: map_of_eq_None_iff)
  from Cons.prems a have d: "distinct (map fst (acc @ [(name, info)]) @ map fst fm)" by auto
  from Cons.prems a have rt: "fromJ (toJ info) = Inr info"
    and rest: "\<forall>(name, info) \<in> set fm. fromJ (toJ info) = Inr info" by auto
  show ?case using Cons.IH [OF d rest] fresh rt a by (simp add: FieldMap_insert_def)
qed

text \<open>
  C8. For every field map, the empty one included, \<open>fromJSON\<close> of \<open>toJSON\<close> gives the
  field map back; a map that is not empty is written as an object whose only member
  \<open>field_map\<close> holds, under each field name, the JSON form of the meta-information of the
  field. The field map has one entry per name, and the conversion of the
  meta-information of each of its fields is taken to read back what it wrote.
\<close>

theorem FieldMap_roundtrip:
  assumes "distinct (map fst fm)"
    and "\<forall>(name, info) \<in> set fm. fromJ (toJ info) = Inr info"
  shows "FieldMap_fromJSON fromJ (FieldMap_toJSON toJ fm) = Inr fm
       \<and> (fm \<noteq> [] \<longrightarrow> FieldMap_toJSON toJ fm =
            JObject [(''field_map'', JObject (map (\<lambda>(name, info). (name, toJ info)) fm))])"
proof (cases "fm = []")
  case True
  then show ?thesis by (simp add: FieldMap_fromJSON_def FieldMap_toJSON_def)
next
  case False
  have l: "toJSON_loop toJ fm [] = map (\<lambda>(name, info). (name, toJ info)) fm"
    using toJSON_loop_distinct [of "[]" fm toJ] assms(1) by simp
  have r: "fromJSON_loop fromJ (map (\<lambda>(name, info). (name, toJ info)) fm) [] = Inr fm"
    using fromJSON_loop_distinct [of "[]" fm fromJ toJ] assms by simp
  show ?thesis using False l r by (simp add: FieldMap_fromJSON_def FieldMap_toJSON_def)
qed

text \<open>The round trip on a field map with the two fields \<open>u\<close> and \<open>v\<close>.\<close>

theorem FieldMap_roundtrip_witness:
  "FieldMap_fromJSON example_dims_fromJSON
     (FieldMap_toJSON (\<lambda>info. JArray (map JInt (fmi_dims info)))
        [(''u'', \<lparr>fmi_type = Float64, fmi_dims = [2, 3], fmi_metaInfo = []\<rparr>),
         (''v'', \<lparr>fmi_type = Float64, fmi_dims = [4], fmi_metaInfo = []\<rparr>)])
   = Inr [(''u'', \<lparr>fmi_type = Float64, fmi_dims = [2, 3], fmi_metaInfo = []\<rparr>),
          (''v'', \<lparr>fmi_type = Float64, fmi_dims = [4], fmi_metaInfo = []\<rparr>)]
   \<and> FieldMap_toJSON (\<lambda>info. JArray (map JInt (fmi_dims info)))
        [(''u'', \<lparr>fmi_type = Float64, fmi_dims = [2, 3], fmi_metaInfo = []\<rparr>),
         (''v'', \<lparr>fmi_type = Float64, fmi_dims = [4], fmi_metaInfo = []\<rparr>)]
     = JObject [(''field_map'',
          JObject [(''u'', JArray [JInt 2, JInt 3]), (''v'', JArray [JInt 4])])]"
proof -
  let ?fm = "[(''u'', \<lparr>fmi_type = Float64, fmi_dims = [2, 3], fmi_metaInfo = []\<rparr>),
              (''v'', \<lparr>fmi_type = Float64, fmi_dims = [4], fmi_metaInfo = []\<rparr>)]"
  let ?toJ = "\<lambda>info. JArray (map JInt (fmi_dims info))"
  have d: "distinct (map fst ?fm)" by simp
  have rt: "\<forall>(name, info) \<in> set ?fm. example_dims_fromJSON (?toJ info) = Inr info"
    by (simp add: example_dims_fromJSON_def)
  note R = FieldMap_roundtrip [OF d rt]
  from R have 1: "FieldMap_fromJSON example_dims_fromJSON (FieldMap_toJSON ?toJ ?fm) = Inr ?fm"
    by (rule conjunct1)
  from R have "FieldMap_toJSON ?toJ ?fm =
      JObject [(''field_map'', JObject (map (\<lambda>(name, info). (name, ?toJ info)) ?fm))]"
    by blast
  then have 2: "FieldMap_toJSON ?toJ ?fm =
      JObject [(''field_map'', JObject [(''u'', JArray [JInt 2, JInt 3]), (''v'', JArray [JInt 4])])]"
    by simp
  from 1 2 show ?thesis by (rule conjI)
qed

text \<open>
  C9 (amended). For every JSON document that is neither null nor empty and does not
  contain the top-level key \<open>field_map\<close>, \<open>FieldMap::fromJSON\<close> fails with "no node
  'field_map'". A null or empty document is accepted and gives the empty field map.
\<close>

theorem fromJSON_no_field_map:
  "(is_null jsonNode \<or> json_empty jsonNode \<longrightarrow> FieldMap_fromJSON fromJ jsonNode = Inr [])
 \<and> (\<not> is_null jsonNode \<and> \<not> json_empty jsonNode \<and> json_count jsonNode ''field_map'' = 0 \<longrightarrow>
      FieldMap_fromJSON fromJ jsonNode = Inl NoFieldMapNode)"
  by (simp add: FieldMap_fromJSON_def)

text \<open>A document with another key only, and the empty array.\<close>

theorem fromJSON_no_field_map_witness:
  "FieldMap_fromJSON example_dims_fromJSON (JObject [(''fields'', JObject [])]) = Inl NoFieldMapNode
 \<and> FieldMap_fromJSON example_dims_fromJSON (JArray []) = Inr []"
proof -
  have a: "\<not> is_null (JObject [(''fields'', JObject [])])
      \<and> \<not> json_empty (JObject [(''fields'', JObject [])])
      \<and> json_count (JObject [(''fields'', JObject [])]) ''field_map'' = 0" by simp
  have b: "is_null (JArray []) \<or> json_empty (JArray [])" by simp
  from fromJSON_no_field_map [where jsonNode = "JObject [(''fields'', JObject [])]"
         and fromJ = example_dims_fromJSON] a
  have 1: "FieldMap_fromJSON example_dims_fromJSON (JObject [(''fields'', JObject [])]) = Inl NoFieldMapNode"
    by blast
  from fromJSON_no_field_map [where jsonNode = "JArray []" and fromJ = example_dims_fromJSON] b
  have 2: "FieldMap_fromJSON example_dims_fromJSON (JArray []) = Inr []"
    by blast
  from 1 2 show ?thesis by (rule conjI)
qed

text \<open>The empty object and the null document have no key \<open>field_map\<close>, and both are
  parsed without an error.\<close>

theorem fromJSON_empty_document_accepted:
  "json_count (JObject []) ''field_map'' = 0 \<and> json_count JNull ''field_map'' = 0
   \<and> FieldMap_fromJSON example_dims_fromJSON (JObject []) = Inr []
   \<and> FieldMap_fromJSON example_dims_fromJSON JNull = Inr []"
  by (simp add: FieldMap_fromJSON_def)

section \<open>write\<close>





section \<open>updateMetaData\<close>

text \<open>
  C2 (amended). Every meta-data update rewrites the meta-data file in place: it opens
  the target file itself with truncation, writes the complete document into it and closes
  it, and then calls the archive to update its own meta-data. No other path of the disk
  changes, so there is no temporary file and no rename; between the opening and the
  writing the target file exists and holds no document. When the target cannot be opened
  the update raises "cannot open file" and the disk is unchanged.
\<close>

theorem updateMetaData_in_place:
  "(write_denied fs (s_metaDataFile s) \<longrightarrow>
      metaDataFile_states X s fs = [fs] \<and> updateMetaData X s fs = (Inl CannotOpenFile, fs))
 \<and> (\<not> write_denied fs (s_metaDataFile s) \<longrightarrow>
      (\<exists>fs1 fs2. metaDataFile_states X s fs = [fs, fs1, fs2]
         \<and> files fs1 (s_metaDataFile s) \<noteq> None
         \<and> document_at fs1 (s_metaDataFile s) = None
         \<and> document_at fs2 (s_metaDataFile s) = Some (toJSON X s)
         \<and> (\<forall>p. p \<noteq> s_metaDataFile s \<longrightarrow> files fs1 p = files fs p \<and> files fs2 p = files fs p)
         \<and> updateMetaData X s fs = archive_updateMetaData X (s_archive s) fs2))"
  by (simp add: metaDataFile_states_def updateMetaData_def open_trunc_def write_close_def document_at_def)

text \<open>The update on a disk that denies the meta-data file, and on one that does not.\<close>

theorem updateMetaData_in_place_witness:
  "metaDataFile_states example_externals (initial_members Append ''d'' ''p'')
      ((example_disk [])\<lparr>write_denied := (\<lambda>p. p = ''d/MetaData-p.json'')\<rparr>)
     = [(example_disk [])\<lparr>write_denied := (\<lambda>p. p = ''d/MetaData-p.json'')\<rparr>]
   \<and> (\<exists>fs2. document_at fs2 ''d/MetaData-p.json'' = Some (toJSON example_externals (initial_members Append ''d'' ''p''))
        \<and> updateMetaData example_externals (initial_members Append ''d'' ''p'') (example_disk []) = (Inr (), fs2))"
proof -
  let ?s = "initial_members Append ''d'' ''p''"
  let ?fs = "(example_disk [])\<lparr>write_denied := (\<lambda>p. p = ''d/MetaData-p.json'')\<rparr>"
  have p: "s_metaDataFile ?s = ''d/MetaData-p.json''" by (simp add: initial_members_def path_join_def)
  have d: "write_denied ?fs (s_metaDataFile ?s)" by (simp add: p)
  have nd: "\<not> write_denied (example_disk []) (s_metaDataFile ?s)" by (simp add: example_disk_def)
  have au: "\<And>t fs. archive_updateMetaData example_externals t fs = (Inr (), fs)"
    by (simp add: example_externals_def)
  from updateMetaData_in_place [where s = ?s and fs = ?fs and X = example_externals] d
  have 1: "metaDataFile_states example_externals ?s ?fs = [?fs]" by blast
  from updateMetaData_in_place [where s = ?s and fs = "example_disk []" and X = example_externals] nd
  obtain fs1 fs2 where "document_at fs2 (s_metaDataFile ?s) = Some (toJSON example_externals ?s)"
     and "updateMetaData example_externals ?s (example_disk []) = archive_updateMetaData example_externals (s_archive ?s) fs2"
    by blast
  then have 2: "\<exists>fs2. document_at fs2 ''d/MetaData-p.json'' = Some (toJSON example_externals ?s)
        \<and> updateMetaData example_externals ?s (example_disk []) = (Inr (), fs2)"
    using p au by auto
  from 1 2 show ?thesis by (rule conjI)
qed

text \<open>The documents the meta-data file holds in the three states of an update, when it
  held a complete document before: in the second state the file is empty.\<close>

theorem updateMetaData_truncates_target:
  "map (\<lambda>d. document_at d ''d/MetaData-p.json'')
     (metaDataFile_states example_externals (initial_members Append ''d'' ''p'')
        (example_disk [(''d/MetaData-p.json'',
           \<lparr>content = Some (JObject [(''prefix'', JString ''p'')]), last_write_time = 5\<rparr>)]))
   = [Some (JObject [(''prefix'', JString ''p'')]), None,
      Some (toJSON example_externals (initial_members Append ''d'' ''p''))]"
  by (simp add: metaDataFile_states_def open_trunc_def write_close_def document_at_def
      example_disk_def initial_members_def path_join_def)

section \<open>read\<close>

lemma find_from_range: "find_from sv sp i \<noteq> -1 \<Longrightarrow> 0 \<le> i \<Longrightarrow>
   i \<le> find_from sv sp i \<and> find_from sv sp i < i + int (length sv)
   \<and> Savepoint_equal (fst (sv ! nat (find_from sv sp i - i))) sp"
proof (induction sv arbitrary: i)
  case Nil
  then show ?case by simp
next
  case (Cons a sv)
  obtain x f where a: "a = (x, f)" by (cases a)
  show ?case
  proof (cases "Savepoint_equal x sp")
    case True
    then show ?thesis using a by simp
  next
    case False
    with Cons.prems a have ne: "find_from sv sp (i + 1) \<noteq> -1" and i1: "0 \<le> i + 1" by auto
    from Cons.IH [OF ne i1] have ih: "i + 1 \<le> find_from sv sp (i + 1)"
      "find_from sv sp (i + 1) < i + 1 + int (length sv)"
      "Savepoint_equal (fst (sv ! nat (find_from sv sp (i + 1) - (i + 1)))) sp" by auto
    have "nat (find_from sv sp (i + 1) - i) = Suc (nat (find_from sv sp (i + 1) - (i + 1)))"
      using ih(1) by linarith
    then show ?thesis using False a ih by simp
  qed
qed

lemma find_from_none: "0 \<le> i \<Longrightarrow> (find_from sv sp i = -1) = (\<forall>x \<in> fst ` set sv. \<not> Savepoint_equal x sp)"
proof (induction sv arbitrary: i)
  case Nil
  then show ?case by simp
next
  case (Cons a sv)
  obtain x f where a: "a = (x, f)" by (cases a)
  from Cons.prems have "0 \<le> i + 1" by simp
  from Cons.IH [OF this] show ?case using a Cons.prems by auto
qed

lemma find_none: "(SavepointVector_find sv sp = -1) = (\<forall>x \<in> fst ` set sv. \<not> Savepoint_equal x sp)"
  using find_from_none [of 0 sv sp] by (simp add: SavepointVector_find_def)

lemma find_some: "SavepointVector_find sv sp = idx \<Longrightarrow> idx \<noteq> -1 \<Longrightarrow>
   0 \<le> idx \<and> nat idx < length sv \<and> Savepoint_equal (fst (sv ! nat idx)) sp"
  using find_from_range [of sv sp 0] by (auto simp: SavepointVector_find_def)

text \<open>
  C7. A call to \<open>read\<close> raises SerializerNotReadable when the mode is not Read. In mode
  Read a failure of the storage-view check is raised as it is; once the check has passed,
  the call raises SavepointNotFound when no savepoint of the vector equals the given one;
  otherwise \<open>find\<close> gives the index of a savepoint equal to it, and the call raises
  FieldNotAtSavepoint when that savepoint records no id for the field, and otherwise is
  the read of the archive with the recorded id.
\<close>

theorem read_contract:
  "(s_mode s \<noteq> Read \<longrightarrow> SerializerImpl_read X s fs name savepoint storageView = Inl SerializerNotReadable)
 \<and> (s_mode s = Read \<and> checkStorageView s name storageView = Inl e \<longrightarrow>
      SerializerImpl_read X s fs name savepoint storageView = Inl e)
 \<and> (s_mode s = Read \<and> checkStorageView s name storageView = Inr () \<longrightarrow>
      ((\<forall>x \<in> fst ` set (s_savepointVector s). \<not> Savepoint_equal x savepoint) \<longrightarrow>
         SerializerImpl_read X s fs name savepoint storageView = Inl SavepointNotFound)
    \<and> (\<forall>idx. SavepointVector_find (s_savepointVector s) savepoint = idx \<and> idx \<noteq> -1 \<longrightarrow>
         0 \<le> idx \<and> nat idx < length (s_savepointVector s)
         \<and> Savepoint_equal (fst (s_savepointVector s ! nat idx)) savepoint
         \<and> (map_of (snd (s_savepointVector s ! nat idx)) name = None \<longrightarrow>
              SerializerImpl_read X s fs name savepoint storageView = Inl FieldNotAtSavepoint)
         \<and> (\<forall>i. map_of (snd (s_savepointVector s ! nat idx)) name = Some i \<longrightarrow>
              SerializerImpl_read X s fs name savepoint storageView =
                archive_read X (s_archive s) fs storageView \<lparr>fid_name = name, fid_id = i\<rparr>)))"
proof (intro conjI impI allI)
  assume "s_mode s \<noteq> Read"
  then show "SerializerImpl_read X s fs name savepoint storageView = Inl SerializerNotReadable"
    by (simp add: SerializerImpl_read_def)
next
  assume "s_mode s = Read \<and> checkStorageView s name storageView = Inl e"
  then show "SerializerImpl_read X s fs name savepoint storageView = Inl e"
    by (simp add: SerializerImpl_read_def)
next
  assume "s_mode s = Read \<and> checkStorageView s name storageView = Inr ()"
    and "\<forall>x \<in> fst ` set (s_savepointVector s). \<not> Savepoint_equal x savepoint"
  then show "SerializerImpl_read X s fs name savepoint storageView = Inl SavepointNotFound"
    using find_none [of "s_savepointVector s" savepoint] by (simp add: SerializerImpl_read_def)
next
  fix idx
  assume a: "s_mode s = Read \<and> checkStorageView s name storageView = Inr ()"
    and f: "SavepointVector_find (s_savepointVector s) savepoint = idx \<and> idx \<noteq> -1"
  from find_some [of "s_savepointVector s" savepoint idx] f
  have r: "0 \<le> idx \<and> nat idx < length (s_savepointVector s)
      \<and> Savepoint_equal (fst (s_savepointVector s ! nat idx)) savepoint" by simp
  then show "0 \<le> idx" "nat idx < length (s_savepointVector s)"
    "Savepoint_equal (fst (s_savepointVector s ! nat idx)) savepoint" by simp_all
  {
    assume "map_of (snd (s_savepointVector s ! nat idx)) name = None"
    with a f r show "SerializerImpl_read X s fs name savepoint storageView = Inl FieldNotAtSavepoint"
      by (simp add: SerializerImpl_read_def SavepointVector_getFieldID_def fields_at_def)
  }
  {
    fix i
    assume "map_of (snd (s_savepointVector s ! nat idx)) name = Some i"
    with a f r show "SerializerImpl_read X s fs name savepoint storageView =
                archive_read X (s_archive s) fs storageView \<lparr>fid_name = name, fid_id = i\<rparr>"
      by (simp add: SerializerImpl_read_def SavepointVector_getFieldID_def fields_at_def)
  }
qed


text \<open>Three reads: on a serializer open in mode Append, at a savepoint that is not in
  the vector, and at a savepoint that records the id 0 for the field.\<close>

theorem read_contract_witness:
  "SerializerImpl_read example_externals (initial_members Append ''d'' ''p'') (example_disk [])
     ''f'' \<lparr>sp_name = ''s1'', sp_metaInfo = []\<rparr>
     \<lparr>view_type = Float64, view_dims = [2], view_data = ''''\<rparr> = Inl SerializerNotReadable
 \<and> SerializerImpl_read example_externals
     ((initial_members Read ''d'' ''p'')
        \<lparr>s_fieldMap := [(''f'', \<lparr>fmi_type = Float64, fmi_dims = [2], fmi_metaInfo = []\<rparr>)],
         s_savepointVector := [(\<lparr>sp_name = ''s1'', sp_metaInfo = []\<rparr>, [(''f'', 0)])],
         s_archive := [(''f'', [\<lparr>offset = 0, checksum = ''ab''\<rparr>])]\<rparr>)
     (example_disk [])
     ''f'' \<lparr>sp_name = ''s2'', sp_metaInfo = []\<rparr>
     \<lparr>view_type = Float64, view_dims = [2], view_data = ''''\<rparr> = Inl SavepointNotFound
 \<and> SerializerImpl_read example_externals
     ((initial_members Read ''d'' ''p'')
        \<lparr>s_fieldMap := [(''f'', \<lparr>fmi_type = Float64, fmi_dims = [2], fmi_metaInfo = []\<rparr>)],
         s_savepointVector := [(\<lparr>sp_name = ''s1'', sp_metaInfo = []\<rparr>, [(''f'', 0)])],
         s_archive := [(''f'', [\<lparr>offset = 0, checksum = ''ab''\<rparr>])]\<rparr>)
     (example_disk [])
     ''f'' \<lparr>sp_name = ''s1'', sp_metaInfo = []\<rparr>
     \<lparr>view_type = Float64, view_dims = [2], view_data = ''''\<rparr>
   = Inr \<lparr>view_type = Float64, view_dims = [2], view_data = ''ab''\<rparr>"
proof -
  let ?sp = "\<lparr>sp_name = ''s1'', sp_metaInfo = []\<rparr>"
  let ?sp2 = "\<lparr>sp_name = ''s2'', sp_metaInfo = []\<rparr>"
  let ?view = "\<lparr>view_type = Float64, view_dims = [2], view_data = ''''\<rparr>"
  let ?s = "(initial_members Read ''d'' ''p'')
        \<lparr>s_fieldMap := [(''f'', \<lparr>fmi_type = Float64, fmi_dims = [2], fmi_metaInfo = []\<rparr>)],
         s_savepointVector := [(?sp, [(''f'', 0)])],
         s_archive := [(''f'', [\<lparr>offset = 0, checksum = ''ab''\<rparr>])]\<rparr>"
  have m1: "s_mode (initial_members Append ''d'' ''p'') \<noteq> Read"
    by (simp add: initial_members_def)
  have m2: "s_mode ?s = Read \<and> checkStorageView ?s ''f'' ?view = Inr ()"
    by (simp add: initial_members_def checkStorageView_def)
  have n2: "\<forall>x \<in> fst ` set (s_savepointVector ?s). \<not> Savepoint_equal x ?sp2"
    by (simp add: Savepoint_equal_def)
  have f3: "SavepointVector_find (s_savepointVector ?s) ?sp = 0 \<and> (0::int) \<noteq> -1"
    by (simp add: SavepointVector_find_def Savepoint_equal_def)
  have g3: "map_of (snd (s_savepointVector ?s ! nat 0)) ''f'' = Some 0"
    by simp
  from read_contract
         [where s = "initial_members Append ''d'' ''p''" and X = example_externals
            and fs = "example_disk []" and name = "''f''" and savepoint = ?sp and storageView = ?view]
       m1
  have 1: "SerializerImpl_read example_externals (initial_members Append ''d'' ''p'') (example_disk [])
     ''f'' ?sp ?view = Inl SerializerNotReadable"
    by blast
  from read_contract
         [where s = ?s and X = example_externals
            and fs = "example_disk []" and name = "''f''" and savepoint = ?sp2 and storageView = ?view]
       m2 n2
  have 2: "SerializerImpl_read example_externals ?s (example_disk []) ''f'' ?sp2 ?view = Inl SavepointNotFound"
    by blast
  from read_contract
         [where s = ?s and X = example_externals
            and fs = "example_disk []" and name = "''f''" and savepoint = ?sp and storageView = ?view]
       m2 f3 g3
  have "SerializerImpl_read example_externals ?s (example_disk []) ''f'' ?sp ?view
      = archive_read example_externals (s_archive ?s) (example_disk []) ?view \<lparr>fid_name = ''f'', fid_id = 0\<rparr>"
    by blast
  then have 3: "SerializerImpl_read example_externals ?s (example_disk []) ''f'' ?sp ?view
      = Inr \<lparr>view_type = Float64, view_dims = [2], view_data = ''ab''\<rparr>"
    by (simp add: example_externals_def example_archive_read_def)
  from 1 2 3 show ?thesis by blast
qed

section \<open>The meta-data document\<close>

lemma example_upgrade_document:
  "upgrade_document (initial_members Read ''d'' ''p'') example_legacy_document = Inr example_upgraded"
  by (simp add: example_legacy_document_def upgrade_document_def deduceFloatType_def try_bind_def
      starts_with_def addMetaInfo_def MetaInfoMap_insert_def upgrade_field_def int32_of_def int64_of_def
      elementtype_TypeID_def FieldMap_insert_def legacy_savepoint_def upgrade_savepoint_def
      SavepointVector_insert_def SavepointVector_find_def upgrade_offset_def
      SavepointVector_addField_def SavepointVector_hasField_def fields_at_def initial_members_def
      path_join_def example_upgraded_def)

lemma narrow_float_example: "narrow_float 16777217 = MFloat32 16777216"
  by code_simp

lemma example_float_upgrade_document:
  "upgrade_document (initial_members Read ''d'' ''p'') example_float_document = Inr example_float_upgraded"
  by (simp add: example_float_document_def upgrade_document_def deduceFloatType_def try_bind_def
      starts_with_def addMetaInfo_def MetaInfoMap_insert_def upgrade_field_def int32_of_def
      elementtype_TypeID_def FieldMap_insert_def initial_members_def path_join_def
      example_float_upgraded_def narrow_float_example)

lemma example_paths:
  "s_metaDataFile (initial_members mode ''d'' ''p'') = ''d/MetaData-p.json''"
  "path_join (s_directory (initial_members mode ''d'' ''p'')) (s_prefix (initial_members mode ''d'' ''p'') @ ''.json'') = ''d/p.json''"
  "s_mode (initial_members mode ''d'' ''p'') = mode"
  by (simp_all add: initial_members_def path_join_def)

lemma json_at_count: "json_at j k = Inr v \<Longrightarrow> json_count j k = 1"
  by (cases j) (auto split: option.splits dest: map_of_SomeD intro: rev_image_eqI)

text \<open>
  C5. The document \<open>toJSON\<close> makes has the node \<open>serialbox_version\<close> with the value
  100 * major + 10 * minor + patch, and the nodes \<open>prefix\<close>, \<open>global_meta_info\<close>,
  \<open>savepoint_vector\<close> and \<open>field_map\<close>. When the meta-data file holds a document,
  its parse fails if the document has no node \<open>serialbox_version\<close>, if the stored
  version does not satisfy \<^verbatim>\<open>Version::match\<close>, and, the version being accepted, if the
  stored prefix is not the prefix of the serializer; each error is rethrown as an error
  while parsing.
\<close>

theorem metadata_document_version_and_prefix:
  "json_at (toJSON X s) ''serialbox_version'' =
      Inr (JInt (100 * version_major X + 10 * version_minor X + version_patch X))
 \<and> json_at (toJSON X s) ''prefix'' = Inr (JString (s_prefix s))
 \<and> json_at (toJSON X s) ''global_meta_info'' = Inr (MetaInfoMap_toJSON X (s_globalMetaInfo s))
 \<and> json_at (toJSON X s) ''savepoint_vector'' = Inr (SavepointVector_toJSON X (s_savepointVector s))
 \<and> json_at (toJSON X s) ''field_map'' = Inr (FieldMap_toJSON (FieldMetaInfo_toJSON X) (s_fieldMap s))
 \<and> (fs_exists fs (s_metaDataFile s) = Inr True \<and> fs_parse fs (s_metaDataFile s) = Some doc \<longrightarrow>
      (json_count doc ''serialbox_version'' = 0 \<longrightarrow>
         constructMetaDataFromJson X s fs = Inl (ErrorWhileParsing VersionNodeMissing))
    \<and> (\<forall>vj v. json_at doc ''serialbox_version'' = Inr vj \<and> json_to_int vj = Inr v
            \<and> \<not> version_match X v \<longrightarrow>
         constructMetaDataFromJson X s fs = Inl (ErrorWhileParsing VersionMismatch))
    \<and> (\<forall>vj v p. json_at doc ''serialbox_version'' = Inr vj \<and> json_to_int vj = Inr v
            \<and> version_match X v \<and> json_at doc ''prefix'' = Inr p \<and> p \<noteq> JString (s_prefix s) \<longrightarrow>
         constructMetaDataFromJson X s fs = Inl (ErrorWhileParsing PrefixMismatch)))"
proof (intro conjI impI allI)
  show "json_at (toJSON X s) ''serialbox_version'' =
      Inr (JInt (100 * version_major X + 10 * version_minor X + version_patch X))"
    by (simp add: toJSON_def)
  show "json_at (toJSON X s) ''prefix'' = Inr (JString (s_prefix s))"
    by (simp add: toJSON_def)
  show "json_at (toJSON X s) ''global_meta_info'' = Inr (MetaInfoMap_toJSON X (s_globalMetaInfo s))"
    by (simp add: toJSON_def)
  show "json_at (toJSON X s) ''savepoint_vector'' = Inr (SavepointVector_toJSON X (s_savepointVector s))"
    by (simp add: toJSON_def)
  show "json_at (toJSON X s) ''field_map'' = Inr (FieldMap_toJSON (FieldMetaInfo_toJSON X) (s_fieldMap s))"
    by (simp add: toJSON_def)
next
  assume f: "fs_exists fs (s_metaDataFile s) = Inr True \<and> fs_parse fs (s_metaDataFile s) = Some doc"
    and "json_count doc ''serialbox_version'' = 0"
  then show "constructMetaDataFromJson X s fs = Inl (ErrorWhileParsing VersionNodeMissing)"
    by (simp add: constructMetaDataFromJson_def try_bind_def parse_document_def)
next
  fix vj v
  assume f: "fs_exists fs (s_metaDataFile s) = Inr True \<and> fs_parse fs (s_metaDataFile s) = Some doc"
    and v: "json_at doc ''serialbox_version'' = Inr vj \<and> json_to_int vj = Inr v \<and> \<not> version_match X v"
  from v have "json_count doc ''serialbox_version'' = 1" by (simp add: json_at_count)
  with f v show "constructMetaDataFromJson X s fs = Inl (ErrorWhileParsing VersionMismatch)"
    by (simp add: constructMetaDataFromJson_def try_bind_def parse_document_def)
next
  fix vj v p
  assume f: "fs_exists fs (s_metaDataFile s) = Inr True \<and> fs_parse fs (s_metaDataFile s) = Some doc"
    and v: "json_at doc ''serialbox_version'' = Inr vj \<and> json_to_int vj = Inr v
            \<and> version_match X v \<and> json_at doc ''prefix'' = Inr p \<and> p \<noteq> JString (s_prefix s)"
  from v have "json_count doc ''serialbox_version'' = 1" "json_count doc ''prefix'' = 1"
    by (simp_all add: json_at_count)
  with f v show "constructMetaDataFromJson X s fs = Inl (ErrorWhileParsing PrefixMismatch)"
    by (simp add: constructMetaDataFromJson_def try_bind_def parse_document_def)
qed

text \<open>The version node of a document written by the library at version 2.0.1, and the
  parse of three documents: without a version, with the version 1, and with the prefix
  \<open>q\<close> where \<open>p\<close> is expected.\<close>

theorem metadata_document_version_and_prefix_witness:
  "json_at (toJSON example_externals (initial_members Read ''d'' ''p'')) ''serialbox_version'' = Inr (JInt 201)
 \<and> constructMetaDataFromJson example_externals (initial_members Read ''d'' ''p'')
      (example_disk [(''d/MetaData-p.json'',
         \<lparr>content = Some (JObject [(''prefix'', JString ''p'')]), last_write_time = 5\<rparr>)])
    = Inl (ErrorWhileParsing VersionNodeMissing)
 \<and> constructMetaDataFromJson example_externals (initial_members Read ''d'' ''p'')
      (example_disk [(''d/MetaData-p.json'',
         \<lparr>content = Some (JObject [(''serialbox_version'', JInt 1), (''prefix'', JString ''p'')]),
          last_write_time = 5\<rparr>)])
    = Inl (ErrorWhileParsing VersionMismatch)
 \<and> constructMetaDataFromJson example_externals (initial_members Read ''d'' ''p'')
      (example_disk [(''d/MetaData-p.json'',
         \<lparr>content = Some (JObject [(''serialbox_version'', JInt 201), (''prefix'', JString ''q'')]),
          last_write_time = 5\<rparr>)])
    = Inl (ErrorWhileParsing PrefixMismatch)"
proof -
  let ?s = "initial_members Read ''d'' ''p''"
  let ?d1 = "JObject [(''prefix'', JString ''p'')]"
  let ?d2 = "JObject [(''serialbox_version'', JInt 1), (''prefix'', JString ''p'')]"
  let ?d3 = "JObject [(''serialbox_version'', JInt 201), (''prefix'', JString ''q'')]"
  let ?fs = "\<lambda>d. example_disk [(''d/MetaData-p.json'', \<lparr>content = Some d, last_write_time = 5\<rparr>)]"
  have ex: "\<And>d. fs_exists (?fs d) (s_metaDataFile ?s) = Inr True \<and> fs_parse (?fs d) (s_metaDataFile ?s) = Some d"
    by (simp add: example_paths fs_exists_def fs_parse_def fs_is_open_in_def example_disk_def)
  have v: "100 * version_major example_externals + 10 * version_minor example_externals
             + version_patch example_externals = 201"
    by (simp add: example_externals_def)
  have h1: "json_count ?d1 ''serialbox_version'' = 0" by simp
  have h2: "json_at ?d2 ''serialbox_version'' = Inr (JInt 1) \<and> json_to_int (JInt 1) = Inr 1
      \<and> \<not> version_match example_externals 1"
    by (simp add: int32_of_def example_externals_def)
  have h3: "json_at ?d3 ''serialbox_version'' = Inr (JInt 201) \<and> json_to_int (JInt 201) = Inr 201
      \<and> version_match example_externals 201 \<and> json_at ?d3 ''prefix'' = Inr (JString ''q'')
      \<and> JString ''q'' \<noteq> JString (s_prefix ?s)"
    by (simp add: int32_of_def example_externals_def initial_members_def)
  note T = metadata_document_version_and_prefix [where X = example_externals and s = ?s]
  from T [where fs = "?fs ?d1" and doc = ?d1] v
  have 0: "json_at (toJSON example_externals ?s) ''serialbox_version'' = Inr (JInt 201)"
    by simp
  from T [where fs = "?fs ?d1" and doc = ?d1] ex [of ?d1] h1
  have 1: "constructMetaDataFromJson example_externals ?s (?fs ?d1) = Inl (ErrorWhileParsing VersionNodeMissing)"
    by blast
  from T [where fs = "?fs ?d2" and doc = ?d2] ex [of ?d2] h2
  have 2: "constructMetaDataFromJson example_externals ?s (?fs ?d2) = Inl (ErrorWhileParsing VersionMismatch)"
    by blast
  from T [where fs = "?fs ?d3" and doc = ?d3] ex [of ?d3] h3
  have 3: "constructMetaDataFromJson example_externals ?s (?fs ?d3) = Inl (ErrorWhileParsing PrefixMismatch)"
    by blast
  from 0 1 2 3 show ?thesis by blast
qed

section \<open>The legacy upgrade\<close>

text \<open>
  C6. Where the legacy document exists and an upgrade is necessary: a serializer whose
  mode is not Read fails with "old serialbox archives cannot be opened in 'Write' or
  'Append' mode", in \<open>upgradeMetaData\<close> and so in the constructor; whenever
  \<open>upgradeMetaData\<close> returns, the mode is Read and it returns true; and in mode Read,
  once the legacy document is upgraded, an \<^verbatim>\<open>Exception\<close> of the final
  \<open>updateMetaData\<close> is swallowed and \<open>upgradeMetaData\<close> returns true with the
  upgraded members.
\<close>

theorem legacy_upgrade_read_only:
  assumes nec: "upgrade_necessary fs (path_join (s_directory s) (s_prefix s @ ''.json''))
                  (s_metaDataFile s) = Inr True"
  shows "(s_mode s \<noteq> Read \<longrightarrow> upgradeMetaData X s fs = Inl UpgradeReadOnly)
     \<and> (s_mode s \<noteq> Read \<and> s = initial_members mode directory prefix \<longrightarrow>
          SerializerImpl_new X mode directory prefix archiveName fs = Inl UpgradeReadOnly)
     \<and> (\<forall>r. upgradeMetaData X s fs = Inr r \<longrightarrow> s_mode s = Read \<and> fst r)
     \<and> (\<forall>oldJson s' e fs'.
          s_mode s = Read
          \<and> fs_is_open_in fs (path_join (s_directory s) (s_prefix s @ ''.json''))
          \<and> fs_parse fs (path_join (s_directory s) (s_prefix s @ ''.json'')) = Some oldJson
          \<and> upgrade_document s oldJson = Inr s'
          \<and> updateMetaData X s' fs = (Inl e, fs') \<and> is_Exception e \<longrightarrow>
          upgradeMetaData X s fs = Inr (True, s', fs'))"
proof (intro conjI impI allI)
  assume "s_mode s \<noteq> Read"
  with nec show "upgradeMetaData X s fs = Inl UpgradeReadOnly"
    by (simp add: upgradeMetaData_def try_bind_def)
next
  assume a: "s_mode s \<noteq> Read \<and> s = initial_members mode directory prefix"
  then have m: "s_mode s \<noteq> Read" and eq: "initial_members mode directory prefix = s"
    by blast+
  from nec m have u: "upgradeMetaData X s fs = Inl UpgradeReadOnly"
    by (simp add: upgradeMetaData_def try_bind_def)
  have sm: "s_mode (initial_members mode directory prefix) = mode"
    by (simp add: initial_members_def)
  from m have "mode \<noteq> Read" unfolding eq [symmetric] sm .
  with u eq show "SerializerImpl_new X mode directory prefix archiveName fs = Inl UpgradeReadOnly"
    by (simp add: SerializerImpl_new_def try_bind_def)
next
  fix r
  assume "upgradeMetaData X s fs = Inr r"
  with nec show "s_mode s = Read" "fst r"
    by (auto simp: upgradeMetaData_def try_bind_def Let_def
        split: if_splits option.splits sum.splits prod.splits)
next
  fix oldJson s' e fs'
  assume "s_mode s = Read
          \<and> fs_is_open_in fs (path_join (s_directory s) (s_prefix s @ ''.json''))
          \<and> fs_parse fs (path_join (s_directory s) (s_prefix s @ ''.json'')) = Some oldJson
          \<and> upgrade_document s oldJson = Inr s'
          \<and> updateMetaData X s' fs = (Inl e, fs') \<and> is_Exception e"
  with nec show "upgradeMetaData X s fs = Inr (True, s', fs')"
    by (simp add: upgradeMetaData_def try_bind_def)
qed

text \<open>A directory that holds the legacy document only: the constructor in mode Append
  and \<open>upgradeMetaData\<close> in mode Write fail; in mode Read on a disk that denies every
  write the upgrade returns true with the upgraded members.\<close>

theorem legacy_upgrade_read_only_witness:
  "SerializerImpl_new example_externals Append ''d'' ''p'' ''Binary''
      (example_disk [(''d/p.json'', \<lparr>content = Some example_legacy_document, last_write_time = 3\<rparr>)])
    = Inl UpgradeReadOnly
 \<and> upgradeMetaData example_externals (initial_members Write ''d'' ''p'')
      (example_disk [(''d/p.json'', \<lparr>content = Some example_legacy_document, last_write_time = 3\<rparr>)])
    = Inl UpgradeReadOnly
 \<and> upgradeMetaData example_externals (initial_members Read ''d'' ''p'')
      ((example_disk [(''d/p.json'', \<lparr>content = Some example_legacy_document, last_write_time = 3\<rparr>)])
         \<lparr>write_denied := (\<lambda>p. True)\<rparr>)
    = Inr (True, example_upgraded,
           (example_disk [(''d/p.json'', \<lparr>content = Some example_legacy_document, last_write_time = 3\<rparr>)])
             \<lparr>write_denied := (\<lambda>p. True)\<rparr>)"
proof -
  let ?fs = "example_disk [(''d/p.json'', \<lparr>content = Some example_legacy_document, last_write_time = 3\<rparr>)]"
  let ?ro = "?fs\<lparr>write_denied := (\<lambda>p. True)\<rparr>"
  have nec: "\<And>mode. upgrade_necessary ?fs
       (path_join (s_directory (initial_members mode ''d'' ''p'')) (s_prefix (initial_members mode ''d'' ''p'') @ ''.json''))
       (s_metaDataFile (initial_members mode ''d'' ''p'')) = Inr True"
    by (simp add: example_paths upgrade_necessary_def fs_exists_def example_disk_def)
  have nec_ro: "upgrade_necessary ?ro
       (path_join (s_directory (initial_members Read ''d'' ''p'')) (s_prefix (initial_members Read ''d'' ''p'') @ ''.json''))
       (s_metaDataFile (initial_members Read ''d'' ''p'')) = Inr True"
    by (simp add: example_paths upgrade_necessary_def fs_exists_def example_disk_def)
  have a: "s_mode (initial_members Append ''d'' ''p'') \<noteq> Read
      \<and> initial_members Append ''d'' ''p'' = initial_members Append ''d'' ''p''"
    by (simp add: example_paths)
  have w: "s_mode (initial_members Write ''d'' ''p'') \<noteq> Read" by (simp add: example_paths)
  have r: "s_mode (initial_members Read ''d'' ''p'') = Read
      \<and> fs_is_open_in ?ro (path_join (s_directory (initial_members Read ''d'' ''p'')) (s_prefix (initial_members Read ''d'' ''p'') @ ''.json''))
      \<and> fs_parse ?ro (path_join (s_directory (initial_members Read ''d'' ''p'')) (s_prefix (initial_members Read ''d'' ''p'') @ ''.json''))
           = Some example_legacy_document
      \<and> upgrade_document (initial_members Read ''d'' ''p'') example_legacy_document = Inr example_upgraded
      \<and> updateMetaData example_externals example_upgraded ?ro = (Inl CannotOpenFile, ?ro)
      \<and> is_Exception CannotOpenFile"
    by (simp add: example_paths example_upgrade_document fs_is_open_in_def fs_parse_def example_disk_def
        updateMetaData_def open_trunc_def)
  from legacy_upgrade_read_only [OF nec [of Append], where X = example_externals and mode = Append
         and directory = "''d''" and prefix = "''p''" and archiveName = "''Binary''"] a
  have 1: "SerializerImpl_new example_externals Append ''d'' ''p'' ''Binary'' ?fs = Inl UpgradeReadOnly"
    by blast
  from legacy_upgrade_read_only [OF nec [of Write], where X = example_externals] w
  have 2: "upgradeMetaData example_externals (initial_members Write ''d'' ''p'') ?fs = Inl UpgradeReadOnly"
    by blast
  from legacy_upgrade_read_only [OF nec_ro, where X = example_externals] r
  have 3: "upgradeMetaData example_externals (initial_members Read ''d'' ''p'') ?ro
      = Inr (True, example_upgraded, ?ro)"
    by blast
  from 1 2 3 show ?thesis by blast
qed

text \<open>
  C10. Where the legacy document and the meta-data file both exist and the legacy
  document was last written strictly before the meta-data file, \<open>upgradeMetaData\<close>
  returns false in every mode and changes nothing, so it does not raise in mode Write or
  Append; and the constructor goes on with the construction from the meta-data file: when
  that file can be read and holds a document with an accepted version, the prefix of the
  serializer and the three nodes of the members, the constructor returns the serializer
  whose global meta-information, savepoint vector and field map are read from these
  nodes and whose archive is the one the factory makes (in mode Write, cleared
  afterwards).
\<close>

theorem upgrade_skipped_when_metadata_newer:
  assumes "\<not> stat_fails fs (path_join (s_directory s) (s_prefix s @ ''.json''))"
    and "\<not> stat_fails fs (s_metaDataFile s)"
    and "files fs (path_join (s_directory s) (s_prefix s @ ''.json'')) = Some legacy"
    and "files fs (s_metaDataFile s) = Some current"
    and "last_write_time legacy < last_write_time current"
  shows "upgradeMetaData X s fs = Inr (False, s, fs)
     \<and> (\<forall>doc vj v gj gm sj sv fj fm fieldTable fs1.
          s = initial_members mode directory prefix
        \<and> (mode = Read \<longrightarrow> fs_exists fs directory = Inr True)
        \<and> \<not> read_denied fs (s_metaDataFile s) \<and> content current = Some doc
        \<and> json_at doc ''serialbox_version'' = Inr vj \<and> json_to_int vj = Inr v
        \<and> version_match X v
        \<and> json_at doc ''prefix'' = Inr (JString prefix)
        \<and> json_at doc ''global_meta_info'' = Inr gj \<and> MetaInfoMap_fromJSON X gj = Inr gm
        \<and> json_at doc ''savepoint_vector'' = Inr sj \<and> SavepointVector_fromJSON X sj = Inr sv
        \<and> json_at doc ''field_map'' = Inr fj
        \<and> FieldMap_fromJSON (FieldMetaInfo_fromJSON X) fj = Inr fm
        \<and> archive_create X archiveName mode directory prefix fs = Inr (fieldTable, fs1) \<longrightarrow>
          SerializerImpl_new X mode directory prefix archiveName fs =
            Inr (if mode = Write
                 then (\<lparr>s_mode = mode, s_directory = directory, s_prefix = prefix,
                        s_metaDataFile = path_join directory (''MetaData-'' @ prefix @ ''.json''),
                        s_savepointVector = [], s_fieldMap = [], s_globalMetaInfo = [],
                        s_archive = fst (archive_clear X fieldTable fs1)\<rparr>,
                       snd (archive_clear X fieldTable fs1))
                 else (\<lparr>s_mode = mode, s_directory = directory, s_prefix = prefix,
                        s_metaDataFile = path_join directory (''MetaData-'' @ prefix @ ''.json''),
                        s_savepointVector = sv, s_fieldMap = fm, s_globalMetaInfo = gm,
                        s_archive = fieldTable\<rparr>, fs1)))"
proof (intro conjI allI impI)
  have n: "upgrade_necessary fs (path_join (s_directory s) (s_prefix s @ ''.json''))
                  (s_metaDataFile s) = Inr False"
    using assms by (simp add: upgrade_necessary_def fs_exists_def fs_last_write_time_def)
  then show u: "upgradeMetaData X s fs = Inr (False, s, fs)"
    by (simp add: upgradeMetaData_def try_bind_def)
  fix doc vj v gj gm sj sv fj fm fieldTable fs1
  assume h: "s = initial_members mode directory prefix
        \<and> (mode = Read \<longrightarrow> fs_exists fs directory = Inr True)
        \<and> \<not> read_denied fs (s_metaDataFile s) \<and> content current = Some doc
        \<and> json_at doc ''serialbox_version'' = Inr vj \<and> json_to_int vj = Inr v
        \<and> version_match X v
        \<and> json_at doc ''prefix'' = Inr (JString prefix)
        \<and> json_at doc ''global_meta_info'' = Inr gj \<and> MetaInfoMap_fromJSON X gj = Inr gm
        \<and> json_at doc ''savepoint_vector'' = Inr sj \<and> SavepointVector_fromJSON X sj = Inr sv
        \<and> json_at doc ''field_map'' = Inr fj
        \<and> FieldMap_fromJSON (FieldMetaInfo_fromJSON X) fj = Inr fm
        \<and> archive_create X archiveName mode directory prefix fs = Inr (fieldTable, fs1)"
  then have s: "initial_members mode directory prefix = s"
    and d: "mode = Read \<longrightarrow> fs_exists fs directory = Inr True"
    and rd: "\<not> read_denied fs (s_metaDataFile s)" and c: "content current = Some doc"
    and ver: "json_at doc ''serialbox_version'' = Inr vj" "json_to_int vj = Inr v" "version_match X v"
    and pre: "json_at doc ''prefix'' = Inr (JString prefix)"
    and g: "json_at doc ''global_meta_info'' = Inr gj" "MetaInfoMap_fromJSON X gj = Inr gm"
    and p: "json_at doc ''savepoint_vector'' = Inr sj" "SavepointVector_fromJSON X sj = Inr sv"
    and f: "json_at doc ''field_map'' = Inr fj" "FieldMap_fromJSON (FieldMetaInfo_fromJSON X) fj = Inr fm"
    and a: "archive_create X archiveName mode directory prefix fs = Inr (fieldTable, fs1)"
    by blast+
  have sel: "s_mode s = mode" "s_directory s = directory" "s_prefix s = prefix"
    "s_metaDataFile s = path_join directory (''MetaData-'' @ prefix @ ''.json'')"
    by (simp_all add: s [symmetric] initial_members_def)
  have cnt: "json_count doc ''serialbox_version'' = 1" "json_count doc ''prefix'' = 1"
    "json_count doc ''global_meta_info'' = 1" "json_count doc ''savepoint_vector'' = 1"
    "json_count doc ''field_map'' = 1"
    using ver(1) pre g(1) p(1) f(1) by (simp_all add: json_at_count)
  have pd: "parse_document X s doc =
      Inr (s\<lparr>s_globalMetaInfo := gm, s_savepointVector := sv, s_fieldMap := fm\<rparr>)"
    using cnt ver pre g p f by (simp add: parse_document_def try_bind_def sel)
  have md: "constructMetaDataFromJson X s fs =
      Inr (s\<lparr>s_globalMetaInfo := gm, s_savepointVector := sv, s_fieldMap := fm\<rparr>)"
    using assms(2,4) rd c pd
    by (simp add: constructMetaDataFromJson_def try_bind_def fs_exists_def fs_parse_def
        fs_is_open_in_def)
  have cn: "construct_normally X archiveName s fs =
      Inr (s\<lparr>s_globalMetaInfo := gm, s_savepointVector := sv, s_fieldMap := fm,
             s_archive := fieldTable\<rparr>, fs1)"
    using md a by (simp add: construct_normally_def try_bind_def sel)
  have new: "SerializerImpl_new X mode directory prefix archiveName fs =
      Inr (if mode = Write
           then clear X (s\<lparr>s_globalMetaInfo := gm, s_savepointVector := sv, s_fieldMap := fm,
                            s_archive := fieldTable\<rparr>) fs1
           else (s\<lparr>s_globalMetaInfo := gm, s_savepointVector := sv, s_fieldMap := fm,
                    s_archive := fieldTable\<rparr>, fs1))"
    using u cn d by (simp add: SerializerImpl_new_def try_bind_def s)
  show "SerializerImpl_new X mode directory prefix archiveName fs =
            Inr (if mode = Write
                 then (\<lparr>s_mode = mode, s_directory = directory, s_prefix = prefix,
                        s_metaDataFile = path_join directory (''MetaData-'' @ prefix @ ''.json''),
                        s_savepointVector = [], s_fieldMap = [], s_globalMetaInfo = [],
                        s_archive = fst (archive_clear X fieldTable fs1)\<rparr>,
                       snd (archive_clear X fieldTable fs1))
                 else (\<lparr>s_mode = mode, s_directory = directory, s_prefix = prefix,
                        s_metaDataFile = path_join directory (''MetaData-'' @ prefix @ ''.json''),
                        s_savepointVector = sv, s_fieldMap = fm, s_globalMetaInfo = gm,
                        s_archive = fieldTable\<rparr>, fs1))"
    unfolding new
    by (simp add: clear_def s [symmetric] initial_members_def split: prod.splits)
qed

lemma example_metadata_document_written:
  "toJSON example_externals example_constructed = example_metadata_document"
  by (simp add: toJSON_def example_externals_def example_constructed_def
      example_metadata_document_def example_MetaInfoMap_toJSON_def example_savepoint_toJSON_def
      FieldMap_toJSON_def)

text \<open>A directory where the legacy document was written at time 3 and the meta-data
  file, with a global value, a savepoint and a field, at time 5. Opened in mode Append:
  no upgrade, and the constructor returns the serializer with the members read from the
  meta-data file. Opened in mode Write: the constructor returns the cleared
  serializer.\<close>

theorem upgrade_skipped_when_metadata_newer_witness:
  "upgradeMetaData example_externals (initial_members Append ''d'' ''p'')
     (example_disk [(''d/p.json'', \<lparr>content = Some example_legacy_document, last_write_time = 3\<rparr>),
                    (''d/MetaData-p.json'',
                       \<lparr>content = Some example_metadata_document, last_write_time = 5\<rparr>)])
   = Inr (False, initial_members Append ''d'' ''p'',
          example_disk [(''d/p.json'', \<lparr>content = Some example_legacy_document, last_write_time = 3\<rparr>),
                        (''d/MetaData-p.json'',
                           \<lparr>content = Some example_metadata_document, last_write_time = 5\<rparr>)])
 \<and> SerializerImpl_new example_externals Append ''d'' ''p'' ''Binary''
     (example_disk [(''d/p.json'', \<lparr>content = Some example_legacy_document, last_write_time = 3\<rparr>),
                    (''d/MetaData-p.json'',
                       \<lparr>content = Some example_metadata_document, last_write_time = 5\<rparr>)])
   = Inr (\<lparr>s_mode = Append, s_directory = ''d'', s_prefix = ''p'',
            s_metaDataFile = ''d/MetaData-p.json'',
            s_savepointVector =
              [(\<lparr>sp_name = ''sp0'', sp_metaInfo = [(''step'', MInt32 3)]\<rparr>, [(''u'', 0)])],
            s_fieldMap = [(''u'', \<lparr>fmi_type = Float64, fmi_dims = [2, 2, 1], fmi_metaInfo = []\<rparr>)],
            s_globalMetaInfo = [(''dt'', MFloat64 1.5)],
            s_archive = []\<rparr>,
          example_disk [(''d/p.json'', \<lparr>content = Some example_legacy_document, last_write_time = 3\<rparr>),
                        (''d/MetaData-p.json'',
                           \<lparr>content = Some example_metadata_document, last_write_time = 5\<rparr>)])
 \<and> SerializerImpl_new example_externals Write ''d'' ''p'' ''Binary''
     (example_disk [(''d/p.json'', \<lparr>content = Some example_legacy_document, last_write_time = 3\<rparr>),
                    (''d/MetaData-p.json'',
                       \<lparr>content = Some example_metadata_document, last_write_time = 5\<rparr>)])
   = Inr (\<lparr>s_mode = Write, s_directory = ''d'', s_prefix = ''p'',
            s_metaDataFile = ''d/MetaData-p.json'',
            s_savepointVector = [], s_fieldMap = [], s_globalMetaInfo = [], s_archive = []\<rparr>,
          example_disk [(''d/p.json'', \<lparr>content = Some example_legacy_document, last_write_time = 3\<rparr>),
                        (''d/MetaData-p.json'',
                           \<lparr>content = Some example_metadata_document, last_write_time = 5\<rparr>)])"
proof -
  let ?s = "\<lambda>mode. initial_members mode ''d'' ''p''"
  let ?legacy = "\<lparr>content = Some example_legacy_document, last_write_time = 3\<rparr>"
  let ?current = "\<lparr>content = Some example_metadata_document, last_write_time = 5\<rparr>"
  let ?fs = "example_disk [(''d/p.json'', ?legacy), (''d/MetaData-p.json'', ?current)]"
  let ?sv = "[(\<lparr>sp_name = ''sp0'', sp_metaInfo = [(''step'', MInt32 3)]\<rparr>, [(''u'', 0::nat)])]"
  let ?fm = "[(''u'', \<lparr>fmi_type = Float64, fmi_dims = [2, 2, 1], fmi_metaInfo = []\<rparr>)]"
  let ?gm = "[(''dt'', MFloat64 1.5)]"
  have 1: "\<And>mode. \<not> stat_fails ?fs (path_join (s_directory (?s mode)) (s_prefix (?s mode) @ ''.json''))"
    by (simp add: example_disk_def)
  have 2: "\<And>mode. \<not> stat_fails ?fs (s_metaDataFile (?s mode))" by (simp add: example_disk_def)
  have 3: "\<And>mode. files ?fs (path_join (s_directory (?s mode)) (s_prefix (?s mode) @ ''.json'')) = Some ?legacy"
    by (simp add: example_paths example_disk_def)
  have 4: "\<And>mode. files ?fs (s_metaDataFile (?s mode)) = Some ?current"
    by (simp add: example_paths example_disk_def)
  have 5: "last_write_time ?legacy < last_write_time ?current" by simp
  note A = upgrade_skipped_when_metadata_newer [OF 1 2 3 4 5, where X = example_externals
      and mode = Append and directory = "''d''" and prefix = "''p''" and archiveName = "''Binary''"]
  note W = upgrade_skipped_when_metadata_newer [OF 1 2 3 4 5, where X = example_externals
      and mode = Write and directory = "''d''" and prefix = "''p''" and archiveName = "''Binary''"]
  from A have a: "upgradeMetaData example_externals (?s Append) ?fs = Inr (False, ?s Append, ?fs)"
    by (rule conjunct1)
  have g: "MetaInfoMap_fromJSON example_externals (JObject [(''dt'', JArray [JString ''Float64'', JFloat 1.5])])
      = Inr ?gm"
    by (simp add: example_externals_def example_MetaInfoMap_fromJSON_def
        example_value_fromJSON_def try_bind_def)
  have p: "SavepointVector_fromJSON example_externals
       (JArray [JObject [(''name'', JString ''sp0''),
                   (''meta_info'', JObject [(''step'', JArray [JString ''Int32'', JInt 3])]),
                   (''fields'', JObject [(''u'', JInt 0)])]])
      = Inr ?sv"
    by (simp add: example_externals_def example_savepoint_fromJSON_def
        example_MetaInfoMap_fromJSON_def example_value_fromJSON_def try_bind_def int32_of_def)
  have f: "FieldMap_fromJSON (FieldMetaInfo_fromJSON example_externals)
       (JObject [(''field_map'', JObject [(''u'', JArray [JInt 2, JInt 2, JInt 1])])])
      = Inr ?fm"
    by (simp add: example_externals_def FieldMap_fromJSON_def example_dims_fromJSON_def
        FieldMap_insert_def)
  have h: "\<And>mode. mode \<noteq> Read \<Longrightarrow>
          ?s mode = initial_members mode ''d'' ''p''
        \<and> (mode = Read \<longrightarrow> fs_exists ?fs ''d'' = Inr True)
        \<and> \<not> read_denied ?fs (s_metaDataFile (?s mode))
        \<and> content ?current = Some example_metadata_document
        \<and> json_at example_metadata_document ''serialbox_version'' = Inr (JInt 201)
        \<and> json_to_int (JInt 201) = Inr 201
        \<and> version_match example_externals 201
        \<and> json_at example_metadata_document ''prefix'' = Inr (JString ''p'')
        \<and> json_at example_metadata_document ''global_meta_info''
            = Inr (JObject [(''dt'', JArray [JString ''Float64'', JFloat 1.5])])
        \<and> MetaInfoMap_fromJSON example_externals (JObject [(''dt'', JArray [JString ''Float64'', JFloat 1.5])])
            = Inr ?gm
        \<and> json_at example_metadata_document ''savepoint_vector''
            = Inr (JArray [JObject [(''name'', JString ''sp0''),
                   (''meta_info'', JObject [(''step'', JArray [JString ''Int32'', JInt 3])]),
                   (''fields'', JObject [(''u'', JInt 0)])]])
        \<and> SavepointVector_fromJSON example_externals
             (JArray [JObject [(''name'', JString ''sp0''),
                   (''meta_info'', JObject [(''step'', JArray [JString ''Int32'', JInt 3])]),
                   (''fields'', JObject [(''u'', JInt 0)])]])
            = Inr ?sv
        \<and> json_at example_metadata_document ''field_map''
            = Inr (JObject [(''field_map'', JObject [(''u'', JArray [JInt 2, JInt 2, JInt 1])])])
        \<and> FieldMap_fromJSON (FieldMetaInfo_fromJSON example_externals)
             (JObject [(''field_map'', JObject [(''u'', JArray [JInt 2, JInt 2, JInt 1])])])
            = Inr ?fm
        \<and> archive_create example_externals ''Binary'' mode ''d'' ''p'' ?fs = Inr ([], ?fs)"
    unfolding g p f
    by (simp add: example_disk_def example_metadata_document_def int32_of_def)
       (simp add: example_externals_def)
  have ha: "Append \<noteq> Read" and hw: "Write \<noteq> Read" by simp_all
  from A [THEN conjunct2, rule_format, OF h [OF ha]]
  have b: "SerializerImpl_new example_externals Append ''d'' ''p'' ''Binary'' ?fs =
     Inr (\<lparr>s_mode = Append, s_directory = ''d'', s_prefix = ''p'',
            s_metaDataFile = ''d/MetaData-p.json'',
            s_savepointVector = ?sv, s_fieldMap = ?fm, s_globalMetaInfo = ?gm,
            s_archive = []\<rparr>, ?fs)"
    by (simp add: path_join_def)
  from W [THEN conjunct2, rule_format, OF h [OF hw]]
  have c: "SerializerImpl_new example_externals Write ''d'' ''p'' ''Binary'' ?fs =
     Inr (\<lparr>s_mode = Write, s_directory = ''d'', s_prefix = ''p'',
            s_metaDataFile = ''d/MetaData-p.json'',
            s_savepointVector = [], s_fieldMap = [], s_globalMetaInfo = [],
            s_archive = []\<rparr>, ?fs)"
    by (simp add: path_join_def example_externals_def)
  from a b c show ?thesis by (intro conjI)
qed


section \<open>The loops of the legacy upgrade\<close>

lemma json_to_string_Inr: "json_to_string v = Inr x \<Longrightarrow> v = JString x"
  by (cases v) auto

lemma try_bind_Inr: "try_bind r f = Inr y \<Longrightarrow> \<exists>x. r = Inr x \<and> f x = Inr y"
  by (cases r) (auto simp: try_bind_def)

lemma json_at_object: "json_at j k = Inr v \<Longrightarrow> \<exists>kvs. j = JObject kvs \<and> map_of kvs k = Some v"
  by (cases j) (auto split: option.splits)

lemma insert_map_of:
  "map_of (snd (MetaInfoMap_insert m key v)) k =
     (case map_of m k of Some w \<Rightarrow> Some w | None \<Rightarrow> if k = key then Some v else None)"
proof (cases "key \<in> fst ` set m")
  case True
  then have "map_of m key \<noteq> None" by (simp add: map_of_eq_None_iff)
  then obtain w where "map_of m key = Some w" by blast
  then show ?thesis using True by (simp add: MetaInfoMap_insert_def split: option.splits)
next
  case False
  then have "map_of m key = None" by (simp add: map_of_eq_None_iff)
  then show ?thesis using False
    by (simp add: MetaInfoMap_insert_def map_add_def split: option.splits)
qed

lemma upgrade_field_metainfo_map:
  "upgrade_field_metainfo ft items m0 = Inr m \<Longrightarrow>
   map_of m k = (case map_of m0 k of
                   Some v \<Rightarrow> Some v
                 | None \<Rightarrow> (case map_of items k of None \<Rightarrow> None | Some j \<Rightarrow> deduce_value ft j))"
proof (induction items arbitrary: m0)
  case Nil
  then show ?case by (simp split: option.splits)
next
  case (Cons a items)
  obtain key val where a: "a = (key, val)" by (cases a)
  from Cons.prems a obtain v where v: "deduce_value ft val = Some v"
    and r: "upgrade_field_metainfo ft items (snd (MetaInfoMap_insert m0 key v)) = Inr m"
    by (auto split: option.splits)
  from Cons.IH [OF r] show ?case using a v
    by (auto simp: insert_map_of split: option.splits)
qed

lemma upgrade_global_map:
  "upgrade_global ft items m0 = Inr m \<Longrightarrow>
   map_of m k = (case map_of m0 k of
                   Some v \<Rightarrow> Some v
                 | None \<Rightarrow> if starts_with k ''__'' then None
                            else (case map_of items k of None \<Rightarrow> None | Some j \<Rightarrow> deduce_value ft j))"
proof (induction items arbitrary: m0)
  case Nil
  then show ?case by (simp split: option.splits)
next
  case (Cons a items)
  obtain key val where a: "a = (key, val)" by (cases a)
  show ?case
  proof (cases "starts_with key ''__''")
    case True
    with Cons.prems a have r: "upgrade_global ft items m0 = Inr m" by simp
    from Cons.IH [OF r] show ?thesis using a True by (auto split: option.splits)
  next
    case False
    with Cons.prems a obtain v where v: "deduce_value ft val = Some v"
      and r: "upgrade_global ft items (addMetaInfo m0 key v) = Inr m"
      by (auto split: option.splits)
    from Cons.IH [OF r] show ?thesis using a v False
      by (auto simp: insert_map_of addMetaInfo_def split: option.splits)
  qed
qed

lemma upgrade_savepoint_metainfo_map:
  "upgrade_savepoint_metainfo ft items m0 = Inr m \<Longrightarrow>
   map_of m k = (case map_of m0 k of
                   Some v \<Rightarrow> Some v
                 | None \<Rightarrow> if starts_with k ''__'' then None
                            else (case map_of items k of None \<Rightarrow> None | Some j \<Rightarrow> deduce_value ft j))"
proof (induction items arbitrary: m0)
  case Nil
  then show ?case by (simp split: option.splits)
next
  case (Cons a items)
  obtain key val where a: "a = (key, val)" by (cases a)
  show ?case
  proof (cases "starts_with key ''__''")
    case True
    with Cons.prems a have r: "upgrade_savepoint_metainfo ft items m0 = Inr m" by simp
    from Cons.IH [OF r] show ?thesis using a True by (auto split: option.splits)
  next
    case False
    with Cons.prems a obtain v where v: "deduce_value ft val = Some v"
      and r: "upgrade_savepoint_metainfo ft items (addMetaInfo m0 key v) = Inr m"
      by (auto split: option.splits)
    from Cons.IH [OF r] show ?thesis using a v False
      by (auto simp: insert_map_of addMetaInfo_def split: option.splits)
  qed
qed

lemma insert_set:
  "(k, w) \<in> set (snd (MetaInfoMap_insert m key v)) \<Longrightarrow> (k, w) \<in> set m \<or> (k = key \<and> w = v)"
  by (auto simp: MetaInfoMap_insert_def split: if_splits)

lemma upgrade_field_metainfo_sound:
  "upgrade_field_metainfo ft items m0 = Inr m \<Longrightarrow> (k, w) \<in> set m \<Longrightarrow>
   (k, w) \<in> set m0 \<or> (\<exists>j. (k, j) \<in> set items \<and> deduce_value ft j = Some w)"
proof (induction items arbitrary: m0)
  case Nil
  then show ?case by simp
next
  case (Cons a items)
  obtain key val where a: "a = (key, val)" by (cases a)
  from Cons.prems a obtain v where v: "deduce_value ft val = Some v"
    and r: "upgrade_field_metainfo ft items (snd (MetaInfoMap_insert m0 key v)) = Inr m"
    by (auto split: option.splits)
  from Cons.IH [OF r Cons.prems(2)] show ?case using a v insert_set by fastforce
qed

lemma upgrade_global_sound:
  "upgrade_global ft items m0 = Inr m \<Longrightarrow> (k, w) \<in> set m \<Longrightarrow>
   (k, w) \<in> set m0 \<or> (\<exists>j. (k, j) \<in> set items \<and> deduce_value ft j = Some w)"
proof (induction items arbitrary: m0)
  case Nil
  then show ?case by simp
next
  case (Cons a items)
  obtain key val where a: "a = (key, val)" by (cases a)
  show ?case
  proof (cases "starts_with key ''__''")
    case True
    with Cons.prems a have r: "upgrade_global ft items m0 = Inr m" by simp
    from Cons.IH [OF r Cons.prems(2)] show ?thesis using a by auto
  next
    case False
    with Cons.prems a obtain v where v: "deduce_value ft val = Some v"
      and r: "upgrade_global ft items (addMetaInfo m0 key v) = Inr m"
      by (auto split: option.splits)
    from Cons.IH [OF r Cons.prems(2)] show ?thesis using a v insert_set
      by (fastforce simp: addMetaInfo_def)
  qed
qed

lemma upgrade_savepoint_metainfo_sound:
  "upgrade_savepoint_metainfo ft items m0 = Inr m \<Longrightarrow> (k, w) \<in> set m \<Longrightarrow>
   (k, w) \<in> set m0 \<or> (\<exists>j. (k, j) \<in> set items \<and> deduce_value ft j = Some w)"
proof (induction items arbitrary: m0)
  case Nil
  then show ?case by simp
next
  case (Cons a items)
  obtain key val where a: "a = (key, val)" by (cases a)
  show ?case
  proof (cases "starts_with key ''__''")
    case True
    with Cons.prems a have r: "upgrade_savepoint_metainfo ft items m0 = Inr m" by simp
    from Cons.IH [OF r Cons.prems(2)] show ?thesis using a by auto
  next
    case False
    with Cons.prems a obtain v where v: "deduce_value ft val = Some v"
      and r: "upgrade_savepoint_metainfo ft items (addMetaInfo m0 key v) = Inr m"
      by (auto split: option.splits)
    from Cons.IH [OF r Cons.prems(2)] show ?thesis using a v insert_set
      by (fastforce simp: addMetaInfo_def)
  qed
qed

lemma tag_of_narrow_float: "tag_of (narrow_float r) = Float32"
  by (simp add: narrow_float_def Let_def)

lemma deduce_value_float_tag:
  "deduce_value ft j = Some w \<Longrightarrow> ft = Float32 \<or> ft = Float64 \<Longrightarrow>
   tag_of w = Float32 \<or> tag_of w = Float64 \<Longrightarrow> tag_of w = ft"
  by (cases j) (auto simp: tag_of_narrow_float split: if_splits)


lemma upgrade_field_Inr:
  assumes "upgrade_field ft fieldInfo = Inr (name, info)"
  shows "\<exists>kvs et i j k.
           fieldInfo = JObject kvs
         \<and> json_at fieldInfo ''__name'' = Inr (JString name)
         \<and> json_at fieldInfo ''__elementtype'' = Inr (JString et)
         \<and> fmi_type info = elementtype_TypeID et
         \<and> try_bind (json_at fieldInfo ''__isize'') json_to_int = Inr i
         \<and> try_bind (json_at fieldInfo ''__jsize'') json_to_int = Inr j
         \<and> try_bind (json_at fieldInfo ''__ksize'') json_to_int = Inr k
         \<and> (if json_count fieldInfo ''__lsize'' \<noteq> 0
             then \<exists>l. try_bind (json_at fieldInfo ''__lsize'') json_to_int = Inr l
                      \<and> fmi_dims info = [i, j, k, l]
             else fmi_dims info = [i, j, k])
         \<and> upgrade_field_metainfo ft kvs [] = Inr (fmi_metaInfo info)"
proof -
  from assms obtain xa xb xc xd xe xf xg xh xi xj xk xl where
        f: "json_at fieldInfo ''__name'' = Inr xa" "json_to_string xa = Inr name"
         "json_at fieldInfo ''__elementtype'' = Inr xc"
         "json_to_string xc = Inr xb" "json_at fieldInfo ''__isize'' = Inr xe"
         "json_to_int xe = Inr xd" "json_at fieldInfo ''__jsize'' = Inr xg"
         "json_to_int xg = Inr xf" "json_at fieldInfo ''__ksize'' = Inr xi"
         "json_to_int xi = Inr xh"
         "(if 0 < json_count fieldInfo ''__lsize''
          then try_bind (try_bind (json_at fieldInfo ''__lsize'') json_to_int)
                (\<lambda>lsize. Inr [xd, xf, xh, lsize])
          else Inr [xd, xf, xh]) = Inr xj"
         "info = \<lparr>fmi_type = elementtype_TypeID xb, fmi_dims = xj, fmi_metaInfo = xk\<rparr>"
         "json_items fieldInfo = Inr xl"
         "upgrade_field_metainfo ft xl [] = Inr xk"
    by (auto simp: upgrade_field_def dest!: try_bind_Inr)
  from f(1) obtain kvs where kvs: "fieldInfo = JObject kvs" by (auto dest: json_at_object)
  from f(1,2) have nm: "json_at fieldInfo ''__name'' = Inr (JString name)"
    by (auto dest: json_to_string_Inr)
  from f(3,4) have et: "json_at fieldInfo ''__elementtype'' = Inr (JString xb)"
    by (auto dest: json_to_string_Inr)
  from f(5-10) have ijk: "try_bind (json_at fieldInfo ''__isize'') json_to_int = Inr xd"
    "try_bind (json_at fieldInfo ''__jsize'') json_to_int = Inr xf"
    "try_bind (json_at fieldInfo ''__ksize'') json_to_int = Inr xh"
    by (simp_all add: try_bind_def)
  from f(11) have dd: "if json_count fieldInfo ''__lsize'' \<noteq> 0
             then \<exists>l. try_bind (json_at fieldInfo ''__lsize'') json_to_int = Inr l
                      \<and> xj = [xd, xf, xh, l]
             else xj = [xd, xf, xh]"
    by (auto simp: try_bind_def split: if_splits sum.splits)
  from f(13,14) kvs have mi: "upgrade_field_metainfo ft kvs [] = Inr xk" by simp
  from f(12) have sel: "fmi_type info = elementtype_TypeID xb" "xj = fmi_dims info"
    "xk = fmi_metaInfo info" by simp_all
  note dd' = dd [unfolded sel(2)] and mi' = mi [unfolded sel(3)]
  from kvs nm et sel(1) ijk dd' mi' show ?thesis by blast
qed

lemma FieldMap_insert_set:
  "set (snd (FieldMap_insert fm name info)) \<subseteq> insert (name, info) (set fm)"
  "fst ` set fm \<subseteq> fst ` set (snd (FieldMap_insert fm name info))"
  "name \<in> fst ` set (snd (FieldMap_insert fm name info))"
  by (auto simp: FieldMap_insert_def split: option.splits dest: map_of_SomeD intro: rev_image_eqI)

lemma upgrade_fields_table_sound:
  "upgrade_fields_table ft entries fm0 = Inr fm \<Longrightarrow> (name, info) \<in> set fm \<Longrightarrow>
   (name, info) \<in> set fm0 \<or> (\<exists>fieldInfo \<in> set entries. upgrade_field ft fieldInfo = Inr (name, info))"
proof (induction entries arbitrary: fm0)
  case Nil
  then show ?case by simp
next
  case (Cons e entries)
  from Cons.prems(1) obtain n i where u: "upgrade_field ft e = Inr (n, i)"
    and r: "upgrade_fields_table ft entries (snd (FieldMap_insert fm0 n i)) = Inr fm"
    by (auto dest!: try_bind_Inr)
  from Cons.IH [OF r Cons.prems(2)] show ?case using u FieldMap_insert_set(1) [of fm0 n i]
    by auto
qed


section \<open>The fields table of a legacy document\<close>

text \<open>
  C4. The field registered for an entry of the legacy \<open>FieldsTable\<close> is to have the
  element type translated from \<open>__elementtype\<close>, the dimensions \<open>__isize\<close>, \<open>__jsize\<close>,
  \<open>__ksize\<close> and a meta-information map with exactly the keys of the entry that are not
  reserved. The code gives the field \<open>u\<close> of the first legacy document the type Float64
  and the dimensions 2, 2, 1, but its meta-information holds the reserved keys
  \<open>__name\<close>, \<open>__elementtype\<close>, \<open>__isize\<close>, \<open>__jsize\<close> and \<open>__ksize\<close> beside the attribute
  \<open>units\<close>: the loop over the members of the entry has no test on the key. The loop over
  the global meta-information, which has the test, leaves the reserved key \<open>__format\<close>
  of the same document out and stores \<open>dt\<close> only.
\<close>

theorem upgraded_field_keeps_reserved_keys:
  "upgrade_fields_table Float64 [example_field_entry] [] =
     Inr [(''u'', \<lparr>fmi_type = Float64, fmi_dims = [2, 2, 1],
                  fmi_metaInfo =
                    [(''__name'', MString ''u''), (''__elementtype'', MString ''double''),
                     (''__isize'', MInt32 2), (''__jsize'', MInt32 2), (''__ksize'', MInt32 1),
                     (''units'', MString ''m'')]\<rparr>)]
 \<and> upgrade_global Float64 [(''__format'', JString ''old''), (''dt'', JFloat 1.5)] []
     = Inr [(''dt'', MFloat64 1.5)]"
  by (simp add: example_field_entry_def upgrade_field_def try_bind_def int32_of_def
      elementtype_TypeID_def MetaInfoMap_insert_def FieldMap_insert_def starts_with_def
      addMetaInfo_def)


section \<open>The floating point type of a legacy document\<close>

lemma json_at_mut_string:
  "(json_at_mut e k = Inr (JString x)) = (json_at e k = Inr (JString x))"
  by (cases e) (auto split: option.splits)

lemma json_count_zero: "json_count j k = 0 \<Longrightarrow> json_at j k = Inl JsonError"
  by (cases j) (auto simp: map_of_eq_None_iff split: option.splits if_splits)

lemma json_index_zero: "json_index t 0 = Inr e \<Longrightarrow> \<exists>rest. t = JArray (e # rest)"
  by (cases t) (auto split: if_splits simp: neq_Nil_conv)

lemma deduceFloatType_first_entry:
  assumes "deduceFloatType oldJson = Inr ft"
  shows "(ft = Float32 \<longleftrightarrow>
           (\<exists>entry rest. json_at oldJson ''FieldsTable'' = Inr (JArray (entry # rest))
              \<and> json_at entry ''__elementtype'' = Inr (JString ''float'')))
       \<and> (ft \<noteq> Float32 \<longrightarrow> ft = Float64)"
proof (cases "json_count oldJson ''FieldsTable'' = 0")
  case True
  with assms have "ft = Float64" by (simp add: deduceFloatType_def)
  moreover from True have "json_at oldJson ''FieldsTable'' = Inl JsonError" by (rule json_count_zero)
  ultimately show ?thesis by simp
next
  case False
  with assms obtain table where t: "json_at oldJson ''FieldsTable'' = Inr table"
    and r: "(if json_size table > 0
           then try_bind (try_bind (json_index table 0) (\<lambda>entry. json_at_mut entry ''__elementtype''))
                  (\<lambda>elementtype. Inr (if elementtype = JString ''float'' then Float32 else Float64))
           else Inr Float64) = Inr ft"
    by (auto simp: deduceFloatType_def dest!: try_bind_Inr)
  show ?thesis
  proof (cases "json_size table > 0")
    case True
    with r obtain entry v where e: "json_index table 0 = Inr entry"
      and v: "json_at_mut entry ''__elementtype'' = Inr v"
      and f: "ft = (if v = JString ''float'' then Float32 else Float64)"
      by (auto dest!: try_bind_Inr)
    from e obtain rest where tb: "table = JArray (entry # rest)" by (auto dest: json_index_zero)
    show ?thesis using t tb v f json_at_mut_string [of entry "''__elementtype''" "''float''"]
      by auto
  next
    case False
    with r have f: "ft = Float64" by simp
    from False have "\<forall>entry rest. table \<noteq> JArray (entry # rest)" by auto
    with t f show ?thesis by simp
  qed
qed

lemma update_keeps_fst: "map fst (xs[i := (fst (xs ! i), y)]) = map fst xs"
proof (cases "i < length xs")
  case True
  then show ?thesis by (simp add: map_update list_update_same_conv)
next
  case False
  then have "length xs \<le> i" by simp
  then show ?thesis by (simp add: list_update_beyond)
qed

lemma upgrade_offsets_keeps:
  "upgrade_offsets items idx sv tbl = Inr (sv', tbl') \<Longrightarrow> map fst sv' = map fst sv"
proof (induction items arbitrary: sv tbl)
  case Nil
  then show ?case by simp
next
  case (Cons a items)
  obtain fieldname val where a: "a = (fieldname, val)" by (cases a)
  from Cons.prems a obtain i tbl1 sv1 where
      ad: "SavepointVector_addField sv idx \<lparr>fid_name = fieldname, fid_id = i\<rparr> = Inr sv1"
      and r: "upgrade_offsets items idx sv1 tbl1 = Inr (sv', tbl')"
    by (auto dest!: try_bind_Inr)
  from ad have "map fst sv1 = map fst sv"
    by (auto simp: SavepointVector_addField_def update_keeps_fst split: if_splits)
  with Cons.IH [OF r] show ?case by simp
qed

lemma upgrade_savepoint_sound:
  assumes "upgrade_savepoint ft entry sv tbl = Inr (sv', tbl')"
  shows "\<exists>sp. legacy_savepoint ft entry = Inr sp \<and> set (map fst sv') \<subseteq> insert sp (set (map fst sv))"
proof -
  from assms obtain sp where l: "legacy_savepoint ft entry = Inr sp"
    and r: "(case SavepointVector_insert sv sp of
       (savepointIdx, sv1) \<Rightarrow>
         if savepointIdx = -1 then Inl CheckFailed
         else try_bind (try_bind (json_at entry ''__offsets'') json_items)
                (\<lambda>offsets. upgrade_offsets offsets savepointIdx sv1 tbl)) = Inr (sv', tbl')"
    by (auto simp: upgrade_savepoint_def dest!: try_bind_Inr)
  obtain idx sv1 where i: "SavepointVector_insert sv sp = (idx, sv1)" by (cases "SavepointVector_insert sv sp")
  from i have s1: "set (map fst sv1) \<subseteq> insert sp (set (map fst sv))"
    by (auto simp: SavepointVector_insert_def Let_def split: if_splits)
  from r i obtain offsets where "upgrade_offsets offsets idx sv1 tbl = Inr (sv', tbl')"
    by (auto split: if_splits dest!: try_bind_Inr)
  then have "map fst sv' = map fst sv1" by (rule upgrade_offsets_keeps)
  with s1 l show ?thesis by auto
qed

lemma upgrade_offset_table_sound:
  "upgrade_offset_table ft entries sv tbl = Inr (sv', tbl') \<Longrightarrow> sp \<in> set (map fst sv') \<Longrightarrow>
   sp \<in> set (map fst sv) \<or> (\<exists>entry \<in> set entries. legacy_savepoint ft entry = Inr sp)"
proof (induction entries arbitrary: sv tbl)
  case Nil
  then show ?case by simp
next
  case (Cons e entries)
  from Cons.prems(1) obtain sv1 tbl1 where u: "upgrade_savepoint ft e sv tbl = Inr (sv1, tbl1)"
    and r: "upgrade_offset_table ft entries sv1 tbl1 = Inr (sv', tbl')"
    by (auto dest!: try_bind_Inr)
  from upgrade_savepoint_sound [OF u] obtain x where x: "legacy_savepoint ft e = Inr x"
    and s1: "set (map fst sv1) \<subseteq> insert x (set (map fst sv))" by blast
  from Cons.IH [OF r Cons.prems(2)] show ?case using x s1 by auto
qed

lemma legacy_savepoint_Inr:
  assumes "legacy_savepoint ft entry = Inr sp"
  shows "\<exists>kvs. entry = JObject kvs \<and> upgrade_savepoint_metainfo ft kvs [] = Inr (sp_metaInfo sp)"
proof -
  from assms obtain v items m where a: "json_at entry ''__name'' = Inr v"
    and i: "json_items entry = Inr items"
    and u: "upgrade_savepoint_metainfo ft items [] = Inr m"
    and s: "sp_metaInfo sp = m"
    by (auto simp: legacy_savepoint_def dest!: try_bind_Inr)
  from a obtain kvs where "entry = JObject kvs" by (auto dest: json_at_object)
  with i u s show ?thesis by auto
qed

lemma try_bind_Inr_pair:
  "try_bind r (\<lambda>(a, b). f a b) = Inr y \<Longrightarrow> \<exists>a. \<exists>b. r = Inr (a, b) \<and> f a b = Inr y"
  by (cases r) (auto simp: try_bind_def)

lemma upgrade_document_Inr:
  assumes "upgrade_document s oldJson = Inr s'"
  shows "\<exists>ft. deduceFloatType oldJson = Inr ft
     \<and> (if json_count oldJson ''GlobalMetainfo'' \<noteq> 0
         then try_bind (try_bind (json_at oldJson ''GlobalMetainfo'') json_items)
               (\<lambda>items. upgrade_global ft items (s_globalMetaInfo s))
         else Inr (s_globalMetaInfo s)) = Inr (s_globalMetaInfo s')
     \<and> (if json_count oldJson ''FieldsTable'' \<noteq> 0
         then try_bind (try_bind (json_at oldJson ''FieldsTable'') json_elements)
               (\<lambda>fieldsTable. upgrade_fields_table ft fieldsTable (s_fieldMap s))
         else Inr (s_fieldMap s)) = Inr (s_fieldMap s')
     \<and> (if json_count oldJson ''OffsetTable'' \<noteq> 0
         then try_bind (try_bind (json_at oldJson ''OffsetTable'') json_elements)
               (\<lambda>offsetTable. upgrade_offset_table ft offsetTable (s_savepointVector s) [])
         else Inr (s_savepointVector s, [])) = Inr (s_savepointVector s', s_archive s')"
proof -
  let ?G = "\<lambda>ft. if json_count oldJson ''GlobalMetainfo'' \<noteq> 0
         then try_bind (try_bind (json_at oldJson ''GlobalMetainfo'') json_items)
               (\<lambda>items. upgrade_global ft items (s_globalMetaInfo s))
         else Inr (s_globalMetaInfo s)"
  let ?F = "\<lambda>ft. if json_count oldJson ''FieldsTable'' \<noteq> 0
         then try_bind (try_bind (json_at oldJson ''FieldsTable'') json_elements)
               (\<lambda>fieldsTable. upgrade_fields_table ft fieldsTable (s_fieldMap s))
         else Inr (s_fieldMap s)"
  let ?O = "\<lambda>ft. if json_count oldJson ''OffsetTable'' \<noteq> 0
         then try_bind (try_bind (json_at oldJson ''OffsetTable'') json_elements)
               (\<lambda>offsetTable. upgrade_offset_table ft offsetTable (s_savepointVector s) [])
         else Inr (s_savepointVector s, [])"
  from assms have "try_bind (deduceFloatType oldJson) (\<lambda>ft.
       try_bind (?G ft) (\<lambda>globalMetaInfo. try_bind (?F ft) (\<lambda>fieldMap.
       try_bind (?O ft) (\<lambda>(savepointVector, fieldTable).
         Inr (s\<lparr>s_globalMetaInfo := globalMetaInfo, s_fieldMap := fieldMap,
                 s_savepointVector := savepointVector, s_archive := fieldTable\<rparr>))))) = Inr s'"
    unfolding upgrade_document_def .
  from try_bind_Inr [OF this] obtain ft where c0: "deduceFloatType oldJson = Inr ft
    \<and> try_bind (?G ft) (\<lambda>globalMetaInfo. try_bind (?F ft) (\<lambda>fieldMap.
       try_bind (?O ft) (\<lambda>(savepointVector, fieldTable).
         Inr (s\<lparr>s_globalMetaInfo := globalMetaInfo, s_fieldMap := fieldMap,
                 s_savepointVector := savepointVector, s_archive := fieldTable\<rparr>)))) = Inr s'" ..
  note ft = c0 [THEN conjunct1] and r = c0 [THEN conjunct2]
  from try_bind_Inr [OF r] obtain gm where c1: "?G ft = Inr gm
    \<and> try_bind (?F ft) (\<lambda>fieldMap.
       try_bind (?O ft) (\<lambda>(savepointVector, fieldTable).
         Inr (s\<lparr>s_globalMetaInfo := gm, s_fieldMap := fieldMap,
                 s_savepointVector := savepointVector, s_archive := fieldTable\<rparr>))) = Inr s'" ..
  note g = c1 [THEN conjunct1] and r1 = c1 [THEN conjunct2]
  from try_bind_Inr [OF r1] obtain fm where c2: "?F ft = Inr fm
    \<and> try_bind (?O ft) (\<lambda>(savepointVector, fieldTable).
         Inr (s\<lparr>s_globalMetaInfo := gm, s_fieldMap := fm,
                 s_savepointVector := savepointVector, s_archive := fieldTable\<rparr>)) = Inr s'" ..
  note f = c2 [THEN conjunct1] and r2 = c2 [THEN conjunct2]
  from try_bind_Inr_pair [OF r2] obtain sv where "\<exists>b. ?O ft = Inr (sv, b)
    \<and> Inr (s\<lparr>s_globalMetaInfo := gm, s_fieldMap := fm,
                 s_savepointVector := sv, s_archive := b\<rparr>) = (Inr s' :: error + SerializerImpl)" ..
  then obtain tbl where c3: "?O ft = Inr (sv, tbl)
    \<and> Inr (s\<lparr>s_globalMetaInfo := gm, s_fieldMap := fm,
                 s_savepointVector := sv, s_archive := tbl\<rparr>) = (Inr s' :: error + SerializerImpl)" ..
  note o = c3 [THEN conjunct1] and r3 = c3 [THEN conjunct2]
  from r3 have s': "s' = s\<lparr>s_globalMetaInfo := gm, s_fieldMap := fm,
                 s_savepointVector := sv, s_archive := tbl\<rparr>"
    by (simp only: sum.inject)
  have sel: "gm = s_globalMetaInfo s'" "fm = s_fieldMap s'"
    "sv = s_savepointVector s'" "tbl = s_archive s'"
    unfolding s' by simp_all
  have o': "?O ft = Inr (s_savepointVector s', s_archive s')"
    using o sel(3,4) by (simp only:)
  show ?thesis
    apply (rule exI [of _ ft])
    apply (intro conjI)
       apply (rule ft)
      apply (rule g [unfolded sel(1)])
     apply (rule f [unfolded sel(2)])
    apply (rule o')
    done
qed


lemma global_float_sound:
  assumes g: "(if json_count oldJson ''GlobalMetainfo'' \<noteq> 0
         then try_bind (try_bind (json_at oldJson ''GlobalMetainfo'') json_items)
               (\<lambda>items. upgrade_global ft items [])
         else Inr []) = Inr gm"
    and ft: "ft = Float32 \<or> ft = Float64"
    and m: "(k, v) \<in> set gm" and t: "tag_of v = Float32 \<or> tag_of v = Float64"
  shows "tag_of v = ft"
proof (cases "json_count oldJson ''GlobalMetainfo'' \<noteq> 0")
  case True
  with g obtain items where "upgrade_global ft items [] = Inr gm"
    by (auto dest!: try_bind_Inr)
  from upgrade_global_sound [OF this m] obtain j where "deduce_value ft j = Some v" by auto
  from deduce_value_float_tag [OF this ft t] show ?thesis .
next
  case False
  with g m show ?thesis by simp
qed

lemma fields_float_sound:
  assumes f: "(if json_count oldJson ''FieldsTable'' \<noteq> 0
         then try_bind (try_bind (json_at oldJson ''FieldsTable'') json_elements)
               (\<lambda>fieldsTable. upgrade_fields_table ft fieldsTable [])
         else Inr []) = Inr fm"
    and ft: "ft = Float32 \<or> ft = Float64"
    and n: "(name, info) \<in> set fm"
    and m: "(k, v) \<in> set (fmi_metaInfo info)" and t: "tag_of v = Float32 \<or> tag_of v = Float64"
  shows "tag_of v = ft"
proof (cases "json_count oldJson ''FieldsTable'' \<noteq> 0")
  case True
  with f obtain entries where "upgrade_fields_table ft entries [] = Inr fm"
    by (auto dest!: try_bind_Inr)
  from upgrade_fields_table_sound [OF this n] obtain entry
    where "upgrade_field ft entry = Inr (name, info)" by auto
  from upgrade_field_Inr [OF this] obtain kvs
    where "upgrade_field_metainfo ft kvs [] = Inr (fmi_metaInfo info)" by blast
  from upgrade_field_metainfo_sound [OF this m] obtain j where "deduce_value ft j = Some v" by auto
  from deduce_value_float_tag [OF this ft t] show ?thesis .
next
  case False
  with f n show ?thesis by simp
qed

lemma savepoints_float_sound:
  assumes o: "(if json_count oldJson ''OffsetTable'' \<noteq> 0
         then try_bind (try_bind (json_at oldJson ''OffsetTable'') json_elements)
               (\<lambda>offsetTable. upgrade_offset_table ft offsetTable [] [])
         else Inr ([], [])) = Inr (sv, tbl)"
    and ft: "ft = Float32 \<or> ft = Float64"
    and n: "(sp, fl) \<in> set sv"
    and m: "(k, v) \<in> set (sp_metaInfo sp)" and t: "tag_of v = Float32 \<or> tag_of v = Float64"
  shows "tag_of v = ft"
proof (cases "json_count oldJson ''OffsetTable'' \<noteq> 0")
  case True
  with o obtain entries where u: "upgrade_offset_table ft entries [] [] = Inr (sv, tbl)"
    by (auto dest!: try_bind_Inr)
  from n have "sp \<in> set (map fst sv)" by (auto intro: rev_image_eqI)
  from upgrade_offset_table_sound [OF u this] obtain entry
    where "legacy_savepoint ft entry = Inr sp" by auto
  from legacy_savepoint_Inr [OF this] obtain kvs
    where "upgrade_savepoint_metainfo ft kvs [] = Inr (sp_metaInfo sp)" by blast
  from upgrade_savepoint_metainfo_sound [OF this m] obtain j where "deduce_value ft j = Some v" by auto
  from deduce_value_float_tag [OF this ft t] show ?thesis .
next
  case False
  with o n show ?thesis by simp
qed

lemma global_float_applied:
  assumes g: "(if json_count oldJson ''GlobalMetainfo'' \<noteq> 0
         then try_bind (try_bind (json_at oldJson ''GlobalMetainfo'') json_items)
               (\<lambda>items. upgrade_global ft items [])
         else Inr []) = Inr gm"
    and a: "json_at oldJson ''GlobalMetainfo'' = Inr (JObject items)"
    and k: "map_of items k = Some (JFloat r)" and n: "\<not> starts_with k ''__''"
  shows "map_of gm k = Some (if ft = Float32 then narrow_float r else MFloat64 r)"
proof -
  from a have "json_count oldJson ''GlobalMetainfo'' = 1" by (rule json_at_count)
  with g a have "upgrade_global ft items [] = Inr gm" by (simp add: try_bind_def)
  from upgrade_global_map [OF this, of k] k n show ?thesis by simp
qed

lemma field_float_applied:
  assumes u: "upgrade_field ft entry = Inr (name, info)"
    and a: "json_at entry k = Inr (JFloat r)"
  shows "map_of (fmi_metaInfo info) k = Some (if ft = Float32 then narrow_float r else MFloat64 r)"
proof -
  from upgrade_field_Inr [OF u] obtain kvs where e: "entry = JObject kvs"
    and m: "upgrade_field_metainfo ft kvs [] = Inr (fmi_metaInfo info)" by blast
  from a e have "map_of kvs k = Some (JFloat r)" by (auto split: option.splits)
  with upgrade_field_metainfo_map [OF m, of k] show ?thesis by simp
qed

lemma savepoint_float_applied:
  assumes u: "legacy_savepoint ft entry = Inr sp"
    and a: "json_at entry k = Inr (JFloat r)" and n: "\<not> starts_with k ''__''"
  shows "map_of (sp_metaInfo sp) k = Some (if ft = Float32 then narrow_float r else MFloat64 r)"
proof -
  from legacy_savepoint_Inr [OF u] obtain kvs where e: "entry = JObject kvs"
    and m: "upgrade_savepoint_metainfo ft kvs [] = Inr (sp_metaInfo sp)" by blast
  from a e have "map_of kvs k = Some (JFloat r)" by (auto split: option.splits)
  with upgrade_savepoint_metainfo_map [OF m, of k] n show ?thesis by simp
qed

text \<open>
  C3 (amended). When the upgrade of a legacy document into a new serializer succeeds,
  the default float tag is Float32 if and only if the fields table is an array that is
  not empty and its first entry has \<open>__elementtype\<close> equal to "float"; otherwise it is
  Float64. Every value with a floating point tag in the upgraded global meta-information,
  in the meta-information of the upgraded fields and in that of the upgraded savepoints
  has this tag, and every JSON float of the global meta-information, of an entry of the
  fields table and of an entry of the offset table (under a key that the loop does not
  skip) is stored with it: the number itself under Float64, the number converted to
  \<^verbatim>\<open>float\<close> under Float32.
\<close>

theorem legacy_float_tag:
  assumes u: "upgrade_document s oldJson = Inr s'"
    and e: "s_globalMetaInfo s = []" "s_fieldMap s = []" "s_savepointVector s = []"
  shows "\<exists>floatType. deduceFloatType oldJson = Inr floatType
     \<and> (floatType = Float32 \<longleftrightarrow>
          (\<exists>entry rest. json_at oldJson ''FieldsTable'' = Inr (JArray (entry # rest))
             \<and> json_at entry ''__elementtype'' = Inr (JString ''float'')))
     \<and> (floatType \<noteq> Float32 \<longrightarrow> floatType = Float64)
     \<and> (\<forall>k v. (k, v) \<in> set (s_globalMetaInfo s') \<and> (tag_of v = Float32 \<or> tag_of v = Float64)
            \<longrightarrow> tag_of v = floatType)
     \<and> (\<forall>name info k v. (name, info) \<in> set (s_fieldMap s') \<and> (k, v) \<in> set (fmi_metaInfo info)
            \<and> (tag_of v = Float32 \<or> tag_of v = Float64) \<longrightarrow> tag_of v = floatType)
     \<and> (\<forall>sp fl k v. (sp, fl) \<in> set (s_savepointVector s') \<and> (k, v) \<in> set (sp_metaInfo sp)
            \<and> (tag_of v = Float32 \<or> tag_of v = Float64) \<longrightarrow> tag_of v = floatType)
     \<and> (\<forall>items k r. json_at oldJson ''GlobalMetainfo'' = Inr (JObject items)
            \<and> map_of items k = Some (JFloat r) \<and> \<not> starts_with k ''__'' \<longrightarrow>
          map_of (s_globalMetaInfo s') k = Some (if floatType = Float32 then narrow_float r else MFloat64 r))
     \<and> (\<forall>entry name info k r. upgrade_field floatType entry = Inr (name, info)
            \<and> json_at entry k = Inr (JFloat r) \<longrightarrow>
          map_of (fmi_metaInfo info) k = Some (if floatType = Float32 then narrow_float r else MFloat64 r))
     \<and> (\<forall>entry sp k r. legacy_savepoint floatType entry = Inr sp
            \<and> json_at entry k = Inr (JFloat r) \<and> \<not> starts_with k ''__'' \<longrightarrow>
          map_of (sp_metaInfo sp) k = Some (if floatType = Float32 then narrow_float r else MFloat64 r))"
proof -
  from upgrade_document_Inr [OF u] obtain ft where c: "deduceFloatType oldJson = Inr ft
     \<and> (if json_count oldJson ''GlobalMetainfo'' \<noteq> 0
         then try_bind (try_bind (json_at oldJson ''GlobalMetainfo'') json_items)
               (\<lambda>items. upgrade_global ft items (s_globalMetaInfo s))
         else Inr (s_globalMetaInfo s)) = Inr (s_globalMetaInfo s')
     \<and> (if json_count oldJson ''FieldsTable'' \<noteq> 0
         then try_bind (try_bind (json_at oldJson ''FieldsTable'') json_elements)
               (\<lambda>fieldsTable. upgrade_fields_table ft fieldsTable (s_fieldMap s))
         else Inr (s_fieldMap s)) = Inr (s_fieldMap s')
     \<and> (if json_count oldJson ''OffsetTable'' \<noteq> 0
         then try_bind (try_bind (json_at oldJson ''OffsetTable'') json_elements)
               (\<lambda>offsetTable. upgrade_offset_table ft offsetTable (s_savepointVector s) [])
         else Inr (s_savepointVector s, [])) = Inr (s_savepointVector s', s_archive s')" ..
  note ft = c [THEN conjunct1]
    and g = c [THEN conjunct2, THEN conjunct1, unfolded e]
    and f = c [THEN conjunct2, THEN conjunct2, THEN conjunct1, unfolded e]
    and o = c [THEN conjunct2, THEN conjunct2, THEN conjunct2, unfolded e]
  note d = deduceFloatType_first_entry [OF ft]
  from d have ft2: "ft = Float32 \<or> ft = Float64" by blast
  have G: "\<forall>k v. (k, v) \<in> set (s_globalMetaInfo s') \<and> (tag_of v = Float32 \<or> tag_of v = Float64)
            \<longrightarrow> tag_of v = ft"
    using global_float_sound [OF g ft2] by blast
  have F: "\<forall>name info k v. (name, info) \<in> set (s_fieldMap s') \<and> (k, v) \<in> set (fmi_metaInfo info)
            \<and> (tag_of v = Float32 \<or> tag_of v = Float64) \<longrightarrow> tag_of v = ft"
    using fields_float_sound [OF f ft2] by blast
  have S: "\<forall>sp fl k v. (sp, fl) \<in> set (s_savepointVector s') \<and> (k, v) \<in> set (sp_metaInfo sp)
            \<and> (tag_of v = Float32 \<or> tag_of v = Float64) \<longrightarrow> tag_of v = ft"
    using savepoints_float_sound [OF o ft2] by blast
  have GA: "\<forall>items k r. json_at oldJson ''GlobalMetainfo'' = Inr (JObject items)
            \<and> map_of items k = Some (JFloat r) \<and> \<not> starts_with k ''__'' \<longrightarrow>
          map_of (s_globalMetaInfo s') k = Some (if ft = Float32 then narrow_float r else MFloat64 r)"
    using global_float_applied [OF g] by blast
  have FA: "\<forall>entry name info k r. upgrade_field ft entry = Inr (name, info)
            \<and> json_at entry k = Inr (JFloat r) \<longrightarrow>
          map_of (fmi_metaInfo info) k = Some (if ft = Float32 then narrow_float r else MFloat64 r)"
    using field_float_applied by blast
  have SA: "\<forall>entry sp k r. legacy_savepoint ft entry = Inr sp
            \<and> json_at entry k = Inr (JFloat r) \<and> \<not> starts_with k ''__'' \<longrightarrow>
          map_of (sp_metaInfo sp) k = Some (if ft = Float32 then narrow_float r else MFloat64 r)"
    using savepoint_float_applied by blast
  show ?thesis
    apply (rule exI [of _ ft])
    apply (intro conjI)
            apply (rule ft)
           apply (rule d [THEN conjunct1])
          apply (rule d [THEN conjunct2])
         apply (rule G)
        apply (rule F)
       apply (rule S)
      apply (rule GA)
     apply (rule FA)
    apply (rule SA)
    done
qed

text \<open>The first example document: its first field has element type double, so the tag
  is Float64 and the global value \<open>dt\<close> is stored as a Float64. The second: its first
  field has element type float, so the tag is Float32 and the global value
  \<open>2 ^ 24 + 1\<close> is stored as the \<^verbatim>\<open>float\<close> nearest to it, \<open>2 ^ 24\<close>.\<close>

theorem legacy_float_tag_witness:
  "deduceFloatType example_legacy_document = Inr Float64
 \<and> map_of (s_globalMetaInfo example_upgraded) ''dt'' = Some (MFloat64 1.5)
 \<and> deduceFloatType example_float_document = Inr Float32
 \<and> map_of (s_globalMetaInfo example_float_upgraded) ''n'' = Some (narrow_float 16777217)
 \<and> narrow_float 16777217 = MFloat32 16777216"
proof -
  have e: "s_globalMetaInfo (initial_members Read ''d'' ''p'') = []"
    "s_fieldMap (initial_members Read ''d'' ''p'') = []"
    "s_savepointVector (initial_members Read ''d'' ''p'') = []"
    by (simp_all add: initial_members_def)
  from legacy_float_tag [OF example_upgrade_document e]
  have A: "deduceFloatType example_legacy_document = Inr Float64
     \<and> map_of (s_globalMetaInfo example_upgraded) ''dt'' = Some (MFloat64 1.5)"
  proof (elim exE conjE)
    fix ft
    assume 1: "deduceFloatType example_legacy_document = Inr ft"
      and 2: "(ft = Float32) =
          (\<exists>entry rest. json_at example_legacy_document ''FieldsTable'' = Inr (JArray (entry # rest))
             \<and> json_at entry ''__elementtype'' = Inr (JString ''float''))"
      and 3: "ft \<noteq> Float32 \<longrightarrow> ft = Float64"
      and 4: "\<forall>items k r. json_at example_legacy_document ''GlobalMetainfo'' = Inr (JObject items)
            \<and> map_of items k = Some (JFloat r) \<and> \<not> starts_with k ''__'' \<longrightarrow>
          map_of (s_globalMetaInfo example_upgraded) k = Some (if ft = Float32 then narrow_float r else MFloat64 r)"
    have "\<not> (\<exists>entry rest. json_at example_legacy_document ''FieldsTable'' = Inr (JArray (entry # rest))
             \<and> json_at entry ''__elementtype'' = Inr (JString ''float''))"
      by (auto simp: example_legacy_document_def)
    with 2 3 have ft: "ft = Float64" by blast
    have "json_at example_legacy_document ''GlobalMetainfo''
           = Inr (JObject [(''__format'', JString ''old''), (''dt'', JFloat 1.5)])
      \<and> map_of [(''__format'', JString ''old''), (''dt'', JFloat 1.5)] ''dt'' = Some (JFloat 1.5)
      \<and> \<not> starts_with ''dt'' ''__''"
      by (simp add: example_legacy_document_def starts_with_def)
    with 4 have "map_of (s_globalMetaInfo example_upgraded) ''dt''
      = Some (if ft = Float32 then narrow_float 1.5 else MFloat64 1.5)"
      by blast
    with 1 ft show ?thesis by simp
  qed
  from legacy_float_tag [OF example_float_upgrade_document e]
  have B: "deduceFloatType example_float_document = Inr Float32
     \<and> map_of (s_globalMetaInfo example_float_upgraded) ''n'' = Some (narrow_float 16777217)"
  proof (elim exE conjE)
    fix ft
    assume 1: "deduceFloatType example_float_document = Inr ft"
      and 2: "(ft = Float32) =
          (\<exists>entry rest. json_at example_float_document ''FieldsTable'' = Inr (JArray (entry # rest))
             \<and> json_at entry ''__elementtype'' = Inr (JString ''float''))"
      and 4: "\<forall>items k r. json_at example_float_document ''GlobalMetainfo'' = Inr (JObject items)
            \<and> map_of items k = Some (JFloat r) \<and> \<not> starts_with k ''__'' \<longrightarrow>
          map_of (s_globalMetaInfo example_float_upgraded) k = Some (if ft = Float32 then narrow_float r else MFloat64 r)"
    have "\<exists>entry rest. json_at example_float_document ''FieldsTable'' = Inr (JArray (entry # rest))
             \<and> json_at entry ''__elementtype'' = Inr (JString ''float'')"
      by (simp add: example_float_document_def)
    with 2 have ft: "ft = Float32" by blast
    have "json_at example_float_document ''GlobalMetainfo'' = Inr (JObject [(''n'', JFloat 16777217)])
      \<and> map_of [(''n'', JFloat 16777217)] ''n'' = Some (JFloat 16777217)
      \<and> \<not> starts_with ''n'' ''__''"
      by (simp add: example_float_document_def starts_with_def)
    with 4 have "map_of (s_globalMetaInfo example_float_upgraded) ''n''
      = Some (if ft = Float32 then narrow_float 16777217 else MFloat64 16777217)"
      by blast
    with 1 ft show ?thesis by simp
  qed
  from A B narrow_float_example show ?thesis by blast
qed

text \<open>A fields table whose second entry has element type float while its first has
  double: the tag is Float64, and the global JSON float is stored as a Float64.\<close>

theorem float_tag_ignores_later_fields:
  "json_at example_mixed_document ''FieldsTable'' =
     Inr (JArray
         [JObject [(''__name'', JString ''u''), (''__elementtype'', JString ''double''),
                   (''__isize'', JInt 2), (''__jsize'', JInt 2), (''__ksize'', JInt 1)],
          JObject [(''__name'', JString ''v''), (''__elementtype'', JString ''float''),
                   (''__isize'', JInt 2), (''__jsize'', JInt 2), (''__ksize'', JInt 1)]])
 \<and> deduceFloatType example_mixed_document = Inr Float64
 \<and> (case upgrade_document (initial_members Read ''d'' ''p'') example_mixed_document of
       Inl e \<Rightarrow> None
     | Inr s' \<Rightarrow> Some (s_globalMetaInfo s')) = Some [(''dt'', MFloat64 1.5)]"
  by (simp add: example_mixed_document_def upgrade_document_def deduceFloatType_def try_bind_def
      starts_with_def addMetaInfo_def MetaInfoMap_insert_def upgrade_field_def int32_of_def
      elementtype_TypeID_def FieldMap_insert_def initial_members_def)

end
